theory Spec2Isabelle
  imports Main
begin

section \<open>Python primitives used by \<open>widget_templates.py\<close>\<close>

text \<open>
  The layout methods index, overwrite and delete list elements. Each of these raises
  \<open>IndexError\<close> in Python when the index is outside the list, so each is a function into
  \<open>error + 'a\<close> here, and a method that uses them is a chain of \<open>and_then\<close>.
\<close>

datatype error = IndexError

definition and_then :: "error + 'a \<Rightarrow> ('a \<Rightarrow> error + 'b) \<Rightarrow> error + 'b" where
  "and_then r f = (case r of Inl e \<Rightarrow> Inl e | Inr x \<Rightarrow> f x)"

text \<open>An index \<open>i\<close> into a list of \<open>n\<close> elements: \<open>-n .. -1\<close> count from the end.\<close>

definition norm_index :: "nat \<Rightarrow> int \<Rightarrow> error + nat" where
  "norm_index n i =
     (if i < 0 then (if - int n \<le> i then Inr (nat (int n + i)) else Inl IndexError)
      else (if i < int n then Inr (nat i) else Inl IndexError))"

definition getitem :: "'a list \<Rightarrow> int \<Rightarrow> error + 'a" where
  "getitem xs i = and_then (norm_index (length xs) i) (\<lambda>k. Inr (xs ! k))"

definition setitem :: "'a list \<Rightarrow> int \<Rightarrow> 'a \<Rightarrow> error + 'a list" where
  "setitem xs i v = and_then (norm_index (length xs) i) (\<lambda>k. Inr (xs[k := v]))"

definition delitem :: "'a list \<Rightarrow> int \<Rightarrow> error + 'a list" where
  "delitem xs i = and_then (norm_index (length xs) i) (\<lambda>k. Inr (take k xs @ drop (Suc k) xs))"

text \<open>\<open>for x in xs: body\<close> where the body mutates \<open>x\<close> in place: every element is replaced
  by what the body leaves, and the first exception ends the loop.\<close>

fun for_each :: "('a \<Rightarrow> error + 'b) \<Rightarrow> 'a list \<Rightarrow> error + 'b list" where
  "for_each body [] = Inr []"
| "for_each body (x # xs) =
     and_then (body x) (\<lambda>y. and_then (for_each body xs) (\<lambda>ys. Inr (y # ys)))"

text \<open>\<open>for x in xs: body\<close> where the body mutates a variable of the enclosing scope.\<close>

fun for_loop :: "('i \<Rightarrow> 's \<Rightarrow> error + 's) \<Rightarrow> 'i list \<Rightarrow> 's \<Rightarrow> error + 's" where
  "for_loop body [] s = Inr s"
| "for_loop body (x # xs) s = and_then (body x s) (for_loop body xs)"

text \<open>\<open>sep.join(xs)\<close>.\<close>

fun join :: "string \<Rightarrow> string list \<Rightarrow> string" where
  "join sep [] = []"
| "join sep [x] = x"
| "join sep (x # y # ys) = x @ sep @ join sep (y # ys)"

text \<open>A matrix cell \<open>m[i][j]\<close>, read and written. The rows of every matrix built below
  are separate list objects, so writing one row leaves the others as they are.\<close>

definition get_cell :: "'a list list \<Rightarrow> int \<Rightarrow> int \<Rightarrow> error + 'a" where
  "get_cell m i j = and_then (getitem m i) (\<lambda>row. getitem row j)"

definition set_cell :: "'a list list \<Rightarrow> int \<Rightarrow> int \<Rightarrow> 'a \<Rightarrow> error + 'a list list" where
  "set_cell m i j v =
     and_then (getitem m i) (\<lambda>row. and_then (setitem row j v) (\<lambda>row'. setitem m i row'))"

text \<open>\<open>m[i][j] = m[k][l]\<close>: Python evaluates the right-hand side first.\<close>

definition copy_cell :: "'a list list \<Rightarrow> int \<times> int \<Rightarrow> int \<times> int \<Rightarrow> error + 'a list list" where
  "copy_cell m dst src =
     and_then (get_cell m (fst src) (snd src)) (\<lambda>v. set_cell m (fst dst) (snd dst) v)"

section \<open>Widgets, layout objects and the containers\<close>

text \<open>
  A widget is an opaque reference together with the address of its layout object. Layout
  objects live in a heap, one attribute dictionary per address, so that a layout object
  shared by two widgets (or by a widget and the container) is one dictionary.
  \<open>setattr\<close> is Python's: it stores the value under the name, whatever the name is.
\<close>

datatype Widget = Widget (widget_id: nat) (widget_layout: nat)

datatype val = VNone | VBool bool | VStr string | VWidget Widget | VTuple "Widget list"

type_synonym heap = "nat \<Rightarrow> string \<Rightarrow> val option"

definition setattr :: "heap \<Rightarrow> nat \<Rightarrow> string \<Rightarrow> val \<Rightarrow> heap" where
  "setattr h a name v = h(a := (h a)(name \<mapsto> v))"

text \<open>The dictionary a trait observer receives; the handlers here read \<open>name\<close> and \<open>new\<close>.\<close>

datatype change = Change (change_name: string) (change_new: val)

text \<open>
  \<open>GridBox\<close> brings \<open>layout\<close> and \<open>children\<close>, the mixin \<open>LayoutTemplate\<close> the \<open>merge\<close>
  flag, and each container its slots.
\<close>

record GridBox =
  layout :: nat
  children :: "Widget list"

record LayoutTemplate = GridBox +
  merge :: bool

record AppLayout = LayoutTemplate +
  header :: "Widget option"
  footer :: "Widget option"
  left_sidebar :: "Widget option"
  right_sidebar :: "Widget option"
  center :: "Widget option"

record TwoByTwoLayout = LayoutTemplate +
  top_left :: "Widget option"
  top_right :: "Widget option"
  bottom_left :: "Widget option"
  bottom_right :: "Widget option"

text \<open>\<open>LayoutTemplate._delegate_to_layout\<close>, registered with \<open>@observe(All)\<close>.\<close>

definition delegate_to_layout ::
  "change \<Rightarrow> 'a LayoutTemplate_scheme \<times> heap \<Rightarrow> 'a LayoutTemplate_scheme \<times> heap" where
  "delegate_to_layout change s =
     (case s of (self, h) \<Rightarrow>
        (self, setattr h (layout self) (change_name change) (change_new change)))"

text \<open>
  \<open>self.children = ...\<close> is a write to a trait of the container. The trait setter
  compares the new value with the one held and is silent when they are equal; otherwise
  it stores the tuple and the change reaches the only observer this file registers for
  that name, the all-trait one.
\<close>

definition set_children ::
  "Widget list \<Rightarrow> 'a LayoutTemplate_scheme \<times> heap \<Rightarrow> 'a LayoutTemplate_scheme \<times> heap" where
  "set_children ws s =
     (case s of (self, h) \<Rightarrow>
        if children self = ws then (self, h)
        else delegate_to_layout (Change ''children'' (VTuple ws)) (self\<lparr>children := ws\<rparr>, h))"

text \<open>The dictionary comprehension that keeps the positions whose child is not \<open>None\<close>,
  in insertion order.\<close>

fun present :: "(string \<times> Widget option) list \<Rightarrow> (string \<times> Widget) list" where
  "present [] = []"
| "present ((position, None) # rest) = present rest"
| "present ((position, Some child) # rest) = (position, child) # present rest"

text \<open>\<open>for position, child in children.items(): child.layout.grid_area = position\<close>.\<close>

definition tag_children :: "(string \<times> Widget) list \<Rightarrow> heap \<Rightarrow> heap" where
  "tag_children cs h =
     fold (\<lambda>pc h'. setattr h' (widget_layout (snd pc)) ''grid_area'' (VStr (fst pc))) cs h"

text \<open>The area matrix as CSS: every row space-joined inside double quotes, the rows
  joined by a newline.\<close>

definition areas_css :: "string list list \<Rightarrow> string" where
  "areas_css areas =
     join [CHR 0x0A] (map (\<lambda>line. [CHR 0x22] @ join '' '' line @ [CHR 0x22]) areas)"

type_synonym grid = "string list list \<times> string list \<times> string list"

definition when_absent :: "'w option \<Rightarrow> ('g \<Rightarrow> error + 'g) \<Rightarrow> 'g \<Rightarrow> error + 'g" where
  "when_absent slot f g = (if slot = None then f g else Inr g)"

section \<open>\<open>AppLayout._update_layout\<close>\<close>

definition AppLayout_all_children :: "AppLayout \<Rightarrow> (string \<times> Widget option) list" where
  "AppLayout_all_children self =
     [(''header'', header self),
      (''footer'', footer self),
      (''left-sidebar'', left_sidebar self),
      (''right-sidebar'', right_sidebar self),
      (''center'', center self)]"

definition AppLayout_children :: "AppLayout \<Rightarrow> (string \<times> Widget) list" where
  "AppLayout_children self = present (AppLayout_all_children self)"

definition AppLayout_base :: grid where
  "AppLayout_base =
     ([[''header'', ''header'', ''header''],
       [''left-sidebar'', ''center'', ''right-sidebar''],
       [''footer'', ''footer'', ''footer'']],
      [''1fr'', ''2fr'', ''1fr''],
      [''1fr'', ''3fr'', ''1fr''])"

text \<open>The six steps of the \<open>else\<close> branch, each on (areas, columns, rows).\<close>

definition drop_center :: "grid \<Rightarrow> error + grid" where
  "drop_center g =
     (case g of (areas, columns, rows) \<Rightarrow>
        and_then (for_each (\<lambda>row. delitem row 1) areas) (\<lambda>areas'.
        and_then (delitem columns 1) (\<lambda>columns'.
        Inr (areas', columns', rows))))"

definition fill_left :: "grid \<Rightarrow> error + grid" where
  "fill_left g =
     (case g of (areas, columns, rows) \<Rightarrow>
        and_then (copy_cell areas (1, 0) (1, 1)) (\<lambda>areas'. Inr (areas', columns, rows)))"

definition fill_right :: "grid \<Rightarrow> error + grid" where
  "fill_right g =
     (case g of (areas, columns, rows) \<Rightarrow>
        and_then (copy_cell areas (1, -1) (1, -2)) (\<lambda>areas'. Inr (areas', columns, rows)))"

definition header_footer_only :: "grid \<Rightarrow> error + grid" where
  "header_footer_only g = Inr ([[''header''], [''footer'']], [''1fr''], [''1fr'', ''1fr''])"

definition drop_header :: "grid \<Rightarrow> error + grid" where
  "drop_header g =
     (case g of (areas, columns, rows) \<Rightarrow>
        and_then (delitem areas 0) (\<lambda>areas'.
        and_then (delitem rows 0) (\<lambda>rows'.
        Inr (areas', columns, rows'))))"

definition drop_footer :: "grid \<Rightarrow> error + grid" where
  "drop_footer g =
     (case g of (areas, columns, rows) \<Rightarrow>
        and_then (delitem areas (-1)) (\<lambda>areas'.
        and_then (delitem rows (-1)) (\<lambda>rows'.
        Inr (areas', columns, rows'))))"

definition AppLayout_reduce :: "AppLayout \<Rightarrow> grid \<Rightarrow> error + grid" where
  "AppLayout_reduce self g0 =
     and_then (when_absent (center self) drop_center g0) (\<lambda>g1.
     and_then (when_absent (left_sidebar self) fill_left g1) (\<lambda>g2.
     and_then (when_absent (right_sidebar self) fill_right g2) (\<lambda>g3.
     and_then (if left_sidebar self = None \<and> right_sidebar self = None \<and> center self = None
               then header_footer_only g3 else Inr g3) (\<lambda>g4.
     and_then (when_absent (header self) drop_header g4) (\<lambda>g5.
     when_absent (footer self) drop_footer g5)))))"

text \<open>Lines 124 to 179: the geometry for a non-empty dictionary \<open>children\<close>.\<close>

definition AppLayout_grid :: "AppLayout \<Rightarrow> (string \<times> Widget) list \<Rightarrow> error + grid" where
  "AppLayout_grid self cs =
     (if merge self then
        (if length cs = 1 then
           and_then (getitem (map fst cs) 0) (\<lambda>position.
           Inr ([[position, position, position],
                 [position, position, position],
                 [position, position, position]],
                fst (snd AppLayout_base), snd (snd AppLayout_base)))
         else AppLayout_reduce self AppLayout_base)
      else Inr AppLayout_base)"

definition AppLayout_update_layout :: "AppLayout \<times> heap \<Rightarrow> error + AppLayout \<times> heap" where
  "AppLayout_update_layout s =
     (case s of (self, h) \<Rightarrow>
        (let cs = AppLayout_children self in
         if cs = [] then Inr s
         else
           (let h1 = tag_children cs h in
            and_then (AppLayout_grid self cs) (\<lambda>g.
              (case g of (areas, columns, rows) \<Rightarrow>
                 (let h2 = setattr h1 (layout self) ''grid_template_columns''
                             (VStr (join '' '' columns));
                      h3 = setattr h2 (layout self) ''grid_template_rows''
                             (VStr (join '' '' rows));
                      h4 = setattr h3 (layout self) ''grid_template_areas''
                             (VStr (areas_css areas))
                  in Inr (set_children (map snd cs) (self, h4))))))))"

section \<open>\<open>TwoByTwoLayout._update_layout\<close>\<close>

definition TwoByTwoLayout_all_children :: "TwoByTwoLayout \<Rightarrow> (string \<times> Widget option) list" where
  "TwoByTwoLayout_all_children self =
     [(''top-left'', top_left self),
      (''top-right'', top_right self),
      (''bottom-left'', bottom_left self),
      (''bottom-right'', bottom_right self)]"

definition TwoByTwoLayout_children :: "TwoByTwoLayout \<Rightarrow> (string \<times> Widget) list" where
  "TwoByTwoLayout_children self = present (TwoByTwoLayout_all_children self)"

definition TwoByTwoLayout_base :: "string list list" where
  "TwoByTwoLayout_base = [[''top-left'', ''top-right''], [''bottom-left'', ''bottom-right'']]"

text \<open>The body of the loop over \<open>enumerate(columns)\<close>; \<open>children.get\<close> is \<open>map_of\<close>.\<close>

definition merge_column ::
  "(string \<times> Widget) list \<Rightarrow> nat \<times> string \<Rightarrow> string list list \<Rightarrow> error + string list list" where
  "merge_column cs ic areas =
     (case ic of (i, column) \<Rightarrow>
        (let top = map_of cs (''top-'' @ column);
             bottom = map_of cs (''bottom-'' @ column);
             i_neighbour = (i + 1) mod 2
         in if top = None \<and> bottom = None then
              and_then (copy_cell areas (0, int i) (0, int i_neighbour)) (\<lambda>areas'.
              copy_cell areas' (1, int i) (1, int i_neighbour))
            else if top = None then copy_cell areas (0, int i) (1, int i)
            else if bottom = None then copy_cell areas (1, int i) (0, int i)
            else Inr areas))"

text \<open>Lines 235 to 273: the area matrix for a non-empty dictionary \<open>children\<close>.\<close>

definition TwoByTwoLayout_grid ::
  "TwoByTwoLayout \<Rightarrow> (string \<times> Widget) list \<Rightarrow> error + string list list" where
  "TwoByTwoLayout_grid self cs =
     (if merge self then
        (if length cs = 1 then
           and_then (getitem (map fst cs) 0) (\<lambda>position.
           Inr [[position, position], [position, position]])
         else for_loop (merge_column cs) (enumerate 0 [''left'', ''right'']) TwoByTwoLayout_base)
      else Inr TwoByTwoLayout_base)"

definition TwoByTwoLayout_update_layout ::
  "TwoByTwoLayout \<times> heap \<Rightarrow> error + TwoByTwoLayout \<times> heap" where
  "TwoByTwoLayout_update_layout s =
     (case s of (self, h) \<Rightarrow>
        (let cs = TwoByTwoLayout_children self in
         if cs = [] then Inr s
         else
           (let h1 = tag_children cs h in
            and_then (TwoByTwoLayout_grid self cs) (\<lambda>areas.
              (let h2 = setattr h1 (layout self) ''grid_template_columns'' (VStr ''1fr 1fr'');
                   h3 = setattr h2 (layout self) ''grid_template_rows'' (VStr ''1fr 1fr'');
                   h4 = setattr h3 (layout self) ''grid_template_areas''
                          (VStr (areas_css areas))
               in Inr (set_children (map snd cs) (self, h4)))))))"

section \<open>The observers\<close>

text \<open>
  The change notification itself is the work of the \<open>traitlets\<close> library. What this file
  fixes is which handler is registered for which trait name: \<open>_child_changed\<close> for the
  slot names of a container, \<open>_delegate_to_layout\<close> for every name. A delivered change
  runs the handlers registered for its name, those registered by name first, the
  all-trait one after them. An assignment to a trait delivers a change only when the
  value assigned differs from the value held: the setter compares the two and, when they
  are equal, neither stores nor notifies.
\<close>

definition AppLayout_child_changed :: "change \<Rightarrow> AppLayout \<times> heap \<Rightarrow> error + AppLayout \<times> heap" where
  "AppLayout_child_changed change s = AppLayout_update_layout s"

definition AppLayout_watched :: "string list" where
  "AppLayout_watched = [''footer'', ''header'', ''center'', ''left_sidebar'', ''right_sidebar'']"

definition AppLayout_notify :: "change \<Rightarrow> AppLayout \<times> heap \<Rightarrow> error + AppLayout \<times> heap" where
  "AppLayout_notify change s =
     and_then (if change_name change \<in> set AppLayout_watched
               then AppLayout_child_changed change s else Inr s)
       (\<lambda>s'. Inr (delegate_to_layout change s'))"

definition TwoByTwoLayout_child_changed ::
  "change \<Rightarrow> TwoByTwoLayout \<times> heap \<Rightarrow> error + TwoByTwoLayout \<times> heap" where
  "TwoByTwoLayout_child_changed change s = TwoByTwoLayout_update_layout s"

definition TwoByTwoLayout_watched :: "string list" where
  "TwoByTwoLayout_watched = [''top_left'', ''bottom_left'', ''top_right'', ''bottom_right'']"

definition TwoByTwoLayout_notify ::
  "change \<Rightarrow> TwoByTwoLayout \<times> heap \<Rightarrow> error + TwoByTwoLayout \<times> heap" where
  "TwoByTwoLayout_notify change s =
     and_then (if change_name change \<in> set TwoByTwoLayout_watched
               then TwoByTwoLayout_child_changed change s else Inr s)
       (\<lambda>s'. Inr (delegate_to_layout change s'))"

text \<open>The value a slot holds, as the \<open>new\<close> entry of its change.\<close>

definition slot_val :: "Widget option \<Rightarrow> val" where
  "slot_val w = (case w of None \<Rightarrow> VNone | Some x \<Rightarrow> VWidget x)"

datatype app_slot = Header | Footer | Left_sidebar | Right_sidebar | Center

fun app_slot_name :: "app_slot \<Rightarrow> string" where
  "app_slot_name Header = ''header''"
| "app_slot_name Footer = ''footer''"
| "app_slot_name Left_sidebar = ''left_sidebar''"
| "app_slot_name Right_sidebar = ''right_sidebar''"
| "app_slot_name Center = ''center''"

fun app_slot_store :: "app_slot \<Rightarrow> Widget option \<Rightarrow> AppLayout \<Rightarrow> AppLayout" where
  "app_slot_store Header w self = self\<lparr>header := w\<rparr>"
| "app_slot_store Footer w self = self\<lparr>footer := w\<rparr>"
| "app_slot_store Left_sidebar w self = self\<lparr>left_sidebar := w\<rparr>"
| "app_slot_store Right_sidebar w self = self\<lparr>right_sidebar := w\<rparr>"
| "app_slot_store Center w self = self\<lparr>center := w\<rparr>"

fun app_slot_get :: "app_slot \<Rightarrow> AppLayout \<Rightarrow> Widget option" where
  "app_slot_get Header self = header self"
| "app_slot_get Footer self = footer self"
| "app_slot_get Left_sidebar self = left_sidebar self"
| "app_slot_get Right_sidebar self = right_sidebar self"
| "app_slot_get Center self = center self"

definition AppLayout_assign ::
  "app_slot \<Rightarrow> Widget option \<Rightarrow> AppLayout \<times> heap \<Rightarrow> error + AppLayout \<times> heap" where
  "AppLayout_assign slot w s =
     (case s of (self, h) \<Rightarrow>
        if app_slot_get slot self = w then Inr s
        else AppLayout_notify (Change (app_slot_name slot) (slot_val w))
               (app_slot_store slot w self, h))"

definition AppLayout_assign_merge :: "bool \<Rightarrow> AppLayout \<times> heap \<Rightarrow> error + AppLayout \<times> heap" where
  "AppLayout_assign_merge b s =
     (case s of (self, h) \<Rightarrow>
        if merge self = b then Inr s
        else AppLayout_notify (Change ''merge'' (VBool b)) (self\<lparr>merge := b\<rparr>, h))"

datatype quad_slot = Top_left | Top_right | Bottom_left | Bottom_right

fun quad_slot_name :: "quad_slot \<Rightarrow> string" where
  "quad_slot_name Top_left = ''top_left''"
| "quad_slot_name Top_right = ''top_right''"
| "quad_slot_name Bottom_left = ''bottom_left''"
| "quad_slot_name Bottom_right = ''bottom_right''"

fun quad_slot_store :: "quad_slot \<Rightarrow> Widget option \<Rightarrow> TwoByTwoLayout \<Rightarrow> TwoByTwoLayout" where
  "quad_slot_store Top_left w self = self\<lparr>top_left := w\<rparr>"
| "quad_slot_store Top_right w self = self\<lparr>top_right := w\<rparr>"
| "quad_slot_store Bottom_left w self = self\<lparr>bottom_left := w\<rparr>"
| "quad_slot_store Bottom_right w self = self\<lparr>bottom_right := w\<rparr>"

fun quad_slot_get :: "quad_slot \<Rightarrow> TwoByTwoLayout \<Rightarrow> Widget option" where
  "quad_slot_get Top_left self = top_left self"
| "quad_slot_get Top_right self = top_right self"
| "quad_slot_get Bottom_left self = bottom_left self"
| "quad_slot_get Bottom_right self = bottom_right self"

definition TwoByTwoLayout_assign ::
  "quad_slot \<Rightarrow> Widget option \<Rightarrow> TwoByTwoLayout \<times> heap \<Rightarrow> error + TwoByTwoLayout \<times> heap" where
  "TwoByTwoLayout_assign slot w s =
     (case s of (self, h) \<Rightarrow>
        if quad_slot_get slot self = w then Inr s
        else TwoByTwoLayout_notify (Change (quad_slot_name slot) (slot_val w))
               (quad_slot_store slot w self, h))"

definition TwoByTwoLayout_assign_merge ::
  "bool \<Rightarrow> TwoByTwoLayout \<times> heap \<Rightarrow> error + TwoByTwoLayout \<times> heap" where
  "TwoByTwoLayout_assign_merge b s =
     (case s of (self, h) \<Rightarrow>
        if merge self = b then Inr s
        else TwoByTwoLayout_notify (Change ''merge'' (VBool b)) (self\<lparr>merge := b\<rparr>, h))"

section \<open>What the claims speak about\<close>

text \<open>The three strings a run leaves on the container's layout object, for a geometry.\<close>

definition layout_written :: "heap \<Rightarrow> nat \<Rightarrow> grid \<Rightarrow> bool" where
  "layout_written h a g =
     (case g of (areas, columns, rows) \<Rightarrow>
        h a ''grid_template_columns'' = Some (VStr (join '' '' columns)) \<and>
        h a ''grid_template_rows'' = Some (VStr (join '' '' rows)) \<and>
        h a ''grid_template_areas'' = Some (VStr (areas_css areas)))"

text \<open>Every child of the dictionary carries its own position as \<open>grid_area\<close>.\<close>

definition tagged :: "heap \<Rightarrow> (string \<times> Widget) list \<Rightarrow> bool" where
  "tagged h cs =
     list_all (\<lambda>pc. h (widget_layout (snd pc)) ''grid_area'' = Some (VStr (fst pc))) cs"

text \<open>The heap after the writes of one run that got past the early \<open>return\<close>, in a
  container that held the children tuple \<open>old\<close>: the tags, the three grid strings, and the
  forwarded tuple when it is a new one.\<close>

definition write_out ::
  "nat \<Rightarrow> Widget list \<Rightarrow> grid \<Rightarrow> (string \<times> Widget) list \<Rightarrow> heap \<Rightarrow> heap" where
  "write_out a old g cs h =
     (case g of (areas, columns, rows) \<Rightarrow>
        (let h4 = setattr (setattr (setattr (tag_children cs h)
                    a ''grid_template_columns'' (VStr (join '' '' columns)))
                    a ''grid_template_rows'' (VStr (join '' '' rows)))
                    a ''grid_template_areas'' (VStr (areas_css areas))
         in if old = map snd cs then h4
            else setattr h4 a ''children'' (VTuple (map snd cs))))"

text \<open>The area tag on a widget's layout object after a run, if the run returned.\<close>

definition area_tag :: "error + 'c \<times> heap \<Rightarrow> Widget \<Rightarrow> val option" where
  "area_tag r w =
     (case r of Inl e \<Rightarrow> None | Inr s \<Rightarrow> snd s (widget_layout w) ''grid_area'')"

text \<open>The cells of the right column of a quadrant matrix: row 0 and row 1 of column 1.\<close>

definition right_column :: "error + string list list \<Rightarrow> error + string \<times> string" where
  "right_column r =
     and_then r (\<lambda>areas.
     and_then (get_cell areas 0 1) (\<lambda>upper.
     and_then (get_cell areas 1 1) (\<lambda>lower. Inr (upper, lower))))"

text \<open>A heap on which no attribute has been set yet.\<close>

definition empty_heap :: heap where
  "empty_heap = (\<lambda>a name. None)"

text \<open>A matrix with no more rows than another and no row wider than any row of the other.\<close>

definition no_larger :: "string list list \<Rightarrow> string list list \<Rightarrow> bool" where
  "no_larger small big =
     (length small \<le> length big \<and>
      list_all (\<lambda>r. list_all (\<lambda>r'. length r \<le> length r') big) small)"

text \<open>How many rows and columns the merged cross geometry keeps, from the presence
  pattern: one row for the header, one for the footer, one for the middle band when any
  of its three positions is filled; three columns with a centre, two with a sidebar only,
  one with neither.\<close>

definition AppLayout_row_count :: "AppLayout \<Rightarrow> nat" where
  "AppLayout_row_count c =
     (if header c = None then 0 else 1) +
     (if left_sidebar c = None \<and> right_sidebar c = None \<and> center c = None then 0 else 1) +
     (if footer c = None then 0 else 1)"

definition AppLayout_column_count :: "AppLayout \<Rightarrow> nat" where
  "AppLayout_column_count c =
     (if center c \<noteq> None then 3
      else if left_sidebar c = None \<and> right_sidebar c = None then 1 else 2)"

section \<open>Facts about the primitives and the write-out\<close>

lemmas py_defs =
  and_then_def getitem_def setitem_def delitem_def norm_index_def
  copy_cell_def get_cell_def set_cell_def

lemmas app_defs =
  AppLayout_grid_def AppLayout_children_def AppLayout_all_children_def AppLayout_base_def
  AppLayout_reduce_def when_absent_def drop_center_def fill_left_def fill_right_def
  header_footer_only_def drop_header_def drop_footer_def

lemmas quad_defs =
  TwoByTwoLayout_grid_def TwoByTwoLayout_children_def TwoByTwoLayout_all_children_def
  TwoByTwoLayout_base_def merge_column_def enumerate_eq_zip

lemma setattr_apply:
  "setattr h a name v a' name' = (if a' = a \<and> name' = name then Some v else h a' name')"
  by (simp add: setattr_def)

lemma tag_children_other_attr:
  "name \<noteq> ''grid_area'' \<Longrightarrow> tag_children cs h a name = h a name"
  unfolding tag_children_def
  by (induction cs arbitrary: h) (simp_all add: setattr_apply)

lemma tag_children_other_layout:
  "a \<notin> set (map (\<lambda>c. widget_layout (snd c)) cs) \<Longrightarrow> tag_children cs h a name = h a name"
  unfolding tag_children_def
  by (induction cs arbitrary: h) (simp_all add: setattr_apply)

text \<open>When no two children share a layout object, the loop leaves on each child's layout
  the position of that child: a later iteration writes elsewhere.\<close>

lemma tag_children_distinct:
  "distinct (map (\<lambda>c. widget_layout (snd c)) cs) \<Longrightarrow> pc \<in> set cs \<Longrightarrow>
   tag_children cs h (widget_layout (snd pc)) ''grid_area'' = Some (VStr (fst pc))"
proof (induction cs arbitrary: h)
  case Nil
  then show ?case by simp
next
  case (Cons x xs)
  show ?case
  proof (cases "pc = x")
    case True
    have "widget_layout (snd x) \<notin> set (map (\<lambda>c. widget_layout (snd c)) xs)"
      using Cons.prems(1) by simp
    then have "tag_children xs (setattr h (widget_layout (snd x)) ''grid_area'' (VStr (fst x)))
                 (widget_layout (snd x)) ''grid_area'' = Some (VStr (fst x))"
      by (simp add: tag_children_other_layout setattr_apply)
    then show ?thesis using True by (simp add: tag_children_def)
  next
    case False
    then have "pc \<in> set xs" using Cons.prems(2) by simp
    moreover have "distinct (map (\<lambda>c. widget_layout (snd c)) xs)" using Cons.prems(1) by simp
    ultimately have "tag_children xs (setattr h (widget_layout (snd x)) ''grid_area'' (VStr (fst x)))
                 (widget_layout (snd pc)) ''grid_area'' = Some (VStr (fst pc))"
      by (rule Cons.IH[rotated])
    then show ?thesis by (simp add: tag_children_def)
  qed
qed

lemma tagged_tag_children:
  "distinct (map (\<lambda>c. widget_layout (snd c)) cs) \<Longrightarrow> tagged (tag_children cs h) cs"
  by (simp add: tagged_def list_all_iff tag_children_distinct)

lemma write_out_written: "layout_written (write_out a old g cs h) a g"
  by (cases g) (simp add: layout_written_def write_out_def Let_def setattr_apply)

lemma write_out_grid_area:
  "write_out a old g cs h b ''grid_area'' = tag_children cs h b ''grid_area''"
  by (cases g) (simp add: write_out_def Let_def setattr_apply)

lemma write_out_tagged:
  "distinct (map (\<lambda>c. widget_layout (snd c)) cs) \<Longrightarrow> tagged (write_out a old g cs h) cs"
  using tagged_tag_children[of cs h]
  by (simp add: tagged_def write_out_grid_area)

lemma AppLayout_update_layout_empty:
  "AppLayout_children self = [] \<Longrightarrow> AppLayout_update_layout (self, h) = Inr (self, h)"
  by (simp add: AppLayout_update_layout_def)

lemma AppLayout_update_layout_nonempty:
  "AppLayout_children self \<noteq> [] \<Longrightarrow>
   AppLayout_grid self (AppLayout_children self) = Inr g \<Longrightarrow>
   AppLayout_update_layout (self, h) =
     Inr (self\<lparr>children := map snd (AppLayout_children self)\<rparr>,
          write_out (layout self) (children self) g (AppLayout_children self) h)"
  by (cases g) (simp add: AppLayout_update_layout_def Let_def and_then_def write_out_def
       set_children_def delegate_to_layout_def)

lemma TwoByTwoLayout_update_layout_empty:
  "TwoByTwoLayout_children self = [] \<Longrightarrow>
   TwoByTwoLayout_update_layout (self, h) = Inr (self, h)"
  by (simp add: TwoByTwoLayout_update_layout_def)

lemma TwoByTwoLayout_update_layout_nonempty:
  "TwoByTwoLayout_children self \<noteq> [] \<Longrightarrow>
   TwoByTwoLayout_grid self (TwoByTwoLayout_children self) = Inr areas \<Longrightarrow>
   TwoByTwoLayout_update_layout (self, h) =
     Inr (self\<lparr>children := map snd (TwoByTwoLayout_children self)\<rparr>,
          write_out (layout self) (children self)
            (areas, [''1fr'', ''1fr''], [''1fr'', ''1fr'']) (TwoByTwoLayout_children self) h)"
  by (simp add: TwoByTwoLayout_update_layout_def Let_def and_then_def write_out_def
       set_children_def delegate_to_layout_def)

text \<open>Neither geometry computation raises, whatever the slots hold.\<close>

lemma AppLayout_grid_total: "\<exists>g. AppLayout_grid c (AppLayout_children c) = Inr g"
  by (cases "header c"; cases "footer c"; cases "left_sidebar c"; cases "right_sidebar c";
      cases "center c"; cases "merge c")
     (simp_all add: app_defs py_defs)

lemma TwoByTwoLayout_grid_total:
  "\<exists>areas. TwoByTwoLayout_grid c (TwoByTwoLayout_children c) = Inr areas"
  by (cases "top_left c"; cases "top_right c"; cases "bottom_left c"; cases "bottom_right c";
      cases "merge c")
     (simp_all add: quad_defs py_defs)

lemma AppLayout_update_layout_total: "\<exists>s'. AppLayout_update_layout (self, h) = Inr s'"
proof (cases "AppLayout_children self = []")
  case True
  then show ?thesis by (simp add: AppLayout_update_layout_empty)
next
  case False
  obtain g where "AppLayout_grid self (AppLayout_children self) = Inr g"
    using AppLayout_grid_total by blast
  with False show ?thesis by (simp add: AppLayout_update_layout_nonempty)
qed

lemma TwoByTwoLayout_update_layout_total:
  "\<exists>s'. TwoByTwoLayout_update_layout (self, h) = Inr s'"
proof (cases "TwoByTwoLayout_children self = []")
  case True
  then show ?thesis by (simp add: TwoByTwoLayout_update_layout_empty)
next
  case False
  obtain areas where "TwoByTwoLayout_grid self (TwoByTwoLayout_children self) = Inr areas"
    using TwoByTwoLayout_grid_total by blast
  with False show ?thesis by (simp add: TwoByTwoLayout_update_layout_nonempty)
qed

section \<open>The claims\<close>

text \<open>
  C1, as amended. Quadrant, merge enabled, occupants at top-left and bottom-right only:
  each column has one occupant, so each column merges within itself (the loop's
  "merge with the cell below" and "merge with the cell above" branches). The matrix is
  top-left over top-left in the left column and bottom-right over bottom-right in the
  right column, that is the rows \<open>top-left bottom-right\<close> twice.
\<close>

theorem quadrant_diagonal_merges_by_column:
  "TwoByTwoLayout_grid
     (self\<lparr>merge := True, top_left := Some a, top_right := None,
            bottom_left := None, bottom_right := Some b\<rparr>)
     (TwoByTwoLayout_children
        (self\<lparr>merge := True, top_left := Some a, top_right := None,
               bottom_left := None, bottom_right := Some b\<rparr>))
   = Inr [[''top-left'', ''bottom-right''], [''top-left'', ''bottom-right'']]"
  by (simp add: quad_defs py_defs)

text \<open>
  C1 as the specification states it fails: for two concrete widgets at top-left and
  bottom-right the matrix is not the row-wise one
  \<open>[[top-left, top-left], [bottom-right, bottom-right]]\<close>.
\<close>

theorem quadrant_diagonal_not_row_merge:
  "TwoByTwoLayout_grid
     \<lparr>layout = 0, children = [], merge = True,
      top_left = Some (Widget 1 11), top_right = None,
      bottom_left = None, bottom_right = Some (Widget 4 14)\<rparr>
     (TwoByTwoLayout_children
        \<lparr>layout = 0, children = [], merge = True,
         top_left = Some (Widget 1 11), top_right = None,
         bottom_left = None, bottom_right = Some (Widget 4 14)\<rparr>)
   \<noteq> Inr [[''top-left'', ''top-left''], [''bottom-right'', ''bottom-right'']]"
  by (simp add: quad_defs py_defs)

text \<open>
  C9. Neither \<open>_update_layout\<close> raises: from every state, with every presence pattern
  and either value of the merge flag, the run ends in a state. Every index, negative
  index and deletion of the method goes through the checked primitives above, so an
  index out of range would be the value \<open>Inl IndexError\<close>. The same holds for a run
  started by assigning a slot.
\<close>

theorem update_layout_never_raises:
  "(\<exists>s'. AppLayout_update_layout (app, h) = Inr s') \<and>
   (\<exists>s'. TwoByTwoLayout_update_layout (quad, h) = Inr s') \<and>
   (\<exists>s'. AppLayout_assign slot w (app, h) = Inr s') \<and>
   (\<exists>s'. TwoByTwoLayout_assign qslot w (quad, h) = Inr s')"
proof -
  have "\<exists>s'. AppLayout_assign slot w (app, h) = Inr s'"
    using AppLayout_update_layout_total[of "app_slot_store slot w app" h]
    by (cases slot)
       (auto simp add: AppLayout_assign_def AppLayout_notify_def AppLayout_child_changed_def
          AppLayout_watched_def and_then_def)
  moreover have "\<exists>s'. TwoByTwoLayout_assign qslot w (quad, h) = Inr s'"
    using TwoByTwoLayout_update_layout_total[of "quad_slot_store qslot w quad" h]
    by (cases qslot)
       (auto simp add: TwoByTwoLayout_assign_def TwoByTwoLayout_notify_def
          TwoByTwoLayout_child_changed_def TwoByTwoLayout_watched_def and_then_def)
  ultimately show ?thesis
    using AppLayout_update_layout_total[of app h] TwoByTwoLayout_update_layout_total[of quad h]
    by blast
qed

subsection \<open>The shape of the merged cross geometry\<close>

lemma AppLayout_merge_shape:
  assumes "merge c" "2 \<le> length (AppLayout_children c)"
  shows "\<exists>areas columns rows.
           AppLayout_grid c (AppLayout_children c) = Inr (areas, columns, rows) \<and>
           length areas = AppLayout_row_count c \<and> length rows = AppLayout_row_count c \<and>
           length columns = AppLayout_column_count c \<and>
           list_all (\<lambda>r. length r = AppLayout_column_count c) areas"
  using assms
  by (cases "header c"; cases "footer c"; cases "left_sidebar c"; cases "right_sidebar c";
      cases "center c")
     (simp_all add: app_defs py_defs AppLayout_row_count_def AppLayout_column_count_def)

lemma AppLayout_children_length:
  "length (AppLayout_children c) =
     (if header c = None then 0 else 1) + (if footer c = None then 0 else 1) +
     (if left_sidebar c = None then 0 else 1) + (if right_sidebar c = None then 0 else 1) +
     (if center c = None then 0 else 1)"
  by (cases "header c"; cases "footer c"; cases "left_sidebar c"; cases "right_sidebar c";
      cases "center c")
     (simp_all add: AppLayout_children_def AppLayout_all_children_def)

lemma AppLayout_counts_mono:
  assumes "header t \<noteq> None \<Longrightarrow> header s \<noteq> None"
      and "footer t \<noteq> None \<Longrightarrow> footer s \<noteq> None"
      and "left_sidebar t \<noteq> None \<Longrightarrow> left_sidebar s \<noteq> None"
      and "right_sidebar t \<noteq> None \<Longrightarrow> right_sidebar s \<noteq> None"
      and "center t \<noteq> None \<Longrightarrow> center s \<noteq> None"
  shows "AppLayout_row_count t \<le> AppLayout_row_count s"
    and "AppLayout_column_count t \<le> AppLayout_column_count s"
    and "length (AppLayout_children t) \<le> length (AppLayout_children s)"
  using assms
  by (auto simp add: AppLayout_row_count_def AppLayout_column_count_def AppLayout_children_length)

text \<open>
  C3, as amended. Cross topology, merge enabled: for presence patterns \<open>t\<close> and \<open>s\<close>
  with every position filled in \<open>t\<close> also filled in \<open>s\<close>, and at least two positions
  filled in \<open>t\<close>, the geometry of \<open>t\<close> has no more rows and no more columns than the
  geometry of \<open>s\<close>: in the matrix, in every row of it, and in the two track lists.
\<close>

theorem cross_merge_counts_monotone:
  assumes "merge s" and "merge t"
      and "header t \<noteq> None \<Longrightarrow> header s \<noteq> None"
      and "footer t \<noteq> None \<Longrightarrow> footer s \<noteq> None"
      and "left_sidebar t \<noteq> None \<Longrightarrow> left_sidebar s \<noteq> None"
      and "right_sidebar t \<noteq> None \<Longrightarrow> right_sidebar s \<noteq> None"
      and "center t \<noteq> None \<Longrightarrow> center s \<noteq> None"
      and "2 \<le> length (AppLayout_children t)"
  shows "\<exists>areas_s columns_s rows_s areas_t columns_t rows_t.
           AppLayout_grid s (AppLayout_children s) = Inr (areas_s, columns_s, rows_s) \<and>
           AppLayout_grid t (AppLayout_children t) = Inr (areas_t, columns_t, rows_t) \<and>
           no_larger areas_t areas_s \<and>
           length columns_t \<le> length columns_s \<and> length rows_t \<le> length rows_s"
proof -
  have rows: "AppLayout_row_count t \<le> AppLayout_row_count s"
    using assms(3-7) by (rule AppLayout_counts_mono(1))
  have cols: "AppLayout_column_count t \<le> AppLayout_column_count s"
    using assms(3-7) by (rule AppLayout_counts_mono(2))
  have len: "length (AppLayout_children t) \<le> length (AppLayout_children s)"
    using assms(3-7) by (rule AppLayout_counts_mono(3))
  from len assms(8) have "2 \<le> length (AppLayout_children s)" by simp
  with assms(1) obtain areas_s columns_s rows_s where
    s: "AppLayout_grid s (AppLayout_children s) = Inr (areas_s, columns_s, rows_s)"
       "length areas_s = AppLayout_row_count s" "length rows_s = AppLayout_row_count s"
       "length columns_s = AppLayout_column_count s"
       "list_all (\<lambda>r. length r = AppLayout_column_count s) areas_s"
    using AppLayout_merge_shape[of s] by blast
  from assms(2,8) obtain areas_t columns_t rows_t where
    t: "AppLayout_grid t (AppLayout_children t) = Inr (areas_t, columns_t, rows_t)"
       "length areas_t = AppLayout_row_count t" "length rows_t = AppLayout_row_count t"
       "length columns_t = AppLayout_column_count t"
       "list_all (\<lambda>r. length r = AppLayout_column_count t) areas_t"
    using AppLayout_merge_shape[of t] by blast
  have "no_larger areas_t areas_s"
    using s(2,5) t(2,5) rows cols by (auto simp add: no_larger_def list_all_iff)
  with s t rows cols show ?thesis by simp
qed

text \<open>The theorem for C3 at header, footer and centre against header and footer.\<close>

theorem cross_merge_counts_monotone_witness:
  "2 \<le> length (AppLayout_children
       \<lparr>layout = 0, children = [], merge = True,
        header = Some (Widget 1 11), footer = Some (Widget 2 12),
        left_sidebar = None, right_sidebar = None, center = None\<rparr>) \<and>
   (\<exists>areas_s columns_s rows_s areas_t columns_t rows_t.
      AppLayout_grid
        \<lparr>layout = 0, children = [], merge = True,
         header = Some (Widget 1 11), footer = Some (Widget 2 12),
         left_sidebar = None, right_sidebar = None, center = Some (Widget 5 15)\<rparr>
        (AppLayout_children
           \<lparr>layout = 0, children = [], merge = True,
            header = Some (Widget 1 11), footer = Some (Widget 2 12),
            left_sidebar = None, right_sidebar = None, center = Some (Widget 5 15)\<rparr>)
        = Inr (areas_s, columns_s, rows_s) \<and>
      AppLayout_grid
        \<lparr>layout = 0, children = [], merge = True,
         header = Some (Widget 1 11), footer = Some (Widget 2 12),
         left_sidebar = None, right_sidebar = None, center = None\<rparr>
        (AppLayout_children
           \<lparr>layout = 0, children = [], merge = True,
            header = Some (Widget 1 11), footer = Some (Widget 2 12),
            left_sidebar = None, right_sidebar = None, center = None\<rparr>)
        = Inr (areas_t, columns_t, rows_t) \<and>
      no_larger areas_t areas_s \<and>
      length columns_t \<le> length columns_s \<and> length rows_t \<le> length rows_s)"
  using cross_merge_counts_monotone
    [of "\<lparr>layout = 0, children = [], merge = True,
         header = Some (Widget 1 11), footer = Some (Widget 2 12),
         left_sidebar = None, right_sidebar = None, center = Some (Widget 5 15)\<rparr>"
        "\<lparr>layout = 0, children = [], merge = True,
         header = Some (Widget 1 11), footer = Some (Widget 2 12),
         left_sidebar = None, right_sidebar = None, center = None\<rparr>"]
  by (simp add: AppLayout_children_def AppLayout_all_children_def)

text \<open>
  C3 as the specification states it fails between two non-empty patterns: header and
  footer give a matrix of two rows and one column, and header alone, a subset, gives
  the full-bleed matrix of three rows and three columns.
\<close>

theorem cross_singleton_grows:
  "AppLayout_grid
     \<lparr>layout = 0, children = [], merge = True,
      header = Some (Widget 1 11), footer = Some (Widget 2 12),
      left_sidebar = None, right_sidebar = None, center = None\<rparr>
     (AppLayout_children
        \<lparr>layout = 0, children = [], merge = True,
         header = Some (Widget 1 11), footer = Some (Widget 2 12),
         left_sidebar = None, right_sidebar = None, center = None\<rparr>)
     = Inr ([[''header''], [''footer'']], [''1fr''], [''1fr'', ''1fr'']) \<and>
   AppLayout_grid
     \<lparr>layout = 0, children = [], merge = True,
      header = Some (Widget 1 11), footer = None,
      left_sidebar = None, right_sidebar = None, center = None\<rparr>
     (AppLayout_children
        \<lparr>layout = 0, children = [], merge = True,
         header = Some (Widget 1 11), footer = None,
         left_sidebar = None, right_sidebar = None, center = None\<rparr>)
     = Inr ([[''header'', ''header'', ''header''],
             [''header'', ''header'', ''header''],
             [''header'', ''header'', ''header'']],
            [''1fr'', ''2fr'', ''1fr''], [''1fr'', ''3fr'', ''1fr'']) \<and>
   \<not> no_larger [[''header'', ''header'', ''header''],
                 [''header'', ''header'', ''header''],
                 [''header'', ''header'', ''header'']]
                [[''header''], [''footer'']] \<and>
   \<not> length [''1fr'', ''2fr'', ''1fr''] \<le> length [''1fr''] \<and>
   \<not> length [''1fr'', ''3fr'', ''1fr''] \<le> length [''1fr'', ''1fr'']"
  by (simp add: app_defs py_defs no_larger_def)

subsection \<open>The right column of the quadrant\<close>

lemma right_column_value:
  assumes "merge c" and "\<not> (top_right c = None \<and> bottom_right c = None)"
  shows "right_column (TwoByTwoLayout_grid c (TwoByTwoLayout_children c)) =
     Inr (if top_right c = None then ''bottom-right'' else ''top-right'',
          if bottom_right c = None then ''top-right'' else ''bottom-right'')"
  using assms
  by (cases "top_left c"; cases "top_right c"; cases "bottom_left c"; cases "bottom_right c")
     (simp_all add: quad_defs py_defs right_column_def)

text \<open>
  C2, as amended. Quadrant, merge enabled: for two slot assignments with the same
  presence pattern on the right column, whatever the left column holds, the two
  right-column cells of the matrices agree, provided the right column has at least one
  occupant.
\<close>

theorem right_column_independent_of_left:
  assumes "merge c" and "merge d"
      and "(top_right c = None) = (top_right d = None)"
      and "(bottom_right c = None) = (bottom_right d = None)"
      and "\<not> (top_right c = None \<and> bottom_right c = None)"
  shows "right_column (TwoByTwoLayout_grid c (TwoByTwoLayout_children c)) =
         right_column (TwoByTwoLayout_grid d (TwoByTwoLayout_children d)) \<and>
         (\<exists>upper lower.
            right_column (TwoByTwoLayout_grid c (TwoByTwoLayout_children c)) = Inr (upper, lower))"
proof -
  have "\<not> (top_right d = None \<and> bottom_right d = None)"
    using assms(3,4,5) by simp
  then show ?thesis
    using assms by (simp add: right_column_value)
qed

text \<open>The theorem for C2 with top-right filled, against a full and an empty left column.\<close>

theorem right_column_independent_of_left_witness:
  "right_column (TwoByTwoLayout_grid
     \<lparr>layout = 0, children = [], merge = True,
      top_left = Some (Widget 1 11), top_right = Some (Widget 2 12),
      bottom_left = Some (Widget 3 13), bottom_right = None\<rparr>
     (TwoByTwoLayout_children
        \<lparr>layout = 0, children = [], merge = True,
         top_left = Some (Widget 1 11), top_right = Some (Widget 2 12),
         bottom_left = Some (Widget 3 13), bottom_right = None\<rparr>)) =
   right_column (TwoByTwoLayout_grid
     \<lparr>layout = 0, children = [], merge = True,
      top_left = None, top_right = Some (Widget 2 12),
      bottom_left = None, bottom_right = None\<rparr>
     (TwoByTwoLayout_children
        \<lparr>layout = 0, children = [], merge = True,
         top_left = None, top_right = Some (Widget 2 12),
         bottom_left = None, bottom_right = None\<rparr>)) \<and>
   right_column (TwoByTwoLayout_grid
     \<lparr>layout = 0, children = [], merge = True,
      top_left = None, top_right = Some (Widget 2 12),
      bottom_left = None, bottom_right = None\<rparr>
     (TwoByTwoLayout_children
        \<lparr>layout = 0, children = [], merge = True,
         top_left = None, top_right = Some (Widget 2 12),
         bottom_left = None, bottom_right = None\<rparr>)) = Inr (''top-right'', ''top-right'')"
  using right_column_independent_of_left
    [of "\<lparr>layout = 0, children = [], merge = True,
         top_left = Some (Widget 1 11), top_right = Some (Widget 2 12),
         bottom_left = Some (Widget 3 13), bottom_right = None\<rparr>"
        "\<lparr>layout = 0, children = [], merge = True,
         top_left = None, top_right = Some (Widget 2 12),
         bottom_left = None, bottom_right = None\<rparr>"]
  by (simp add: quad_defs py_defs right_column_def)

text \<open>
  C2 as the specification states it fails when the right column is empty: with both
  left slots filled the right column copies the left one row by row, and with top-left
  alone the single-occupant branch fills every cell with \<open>top-left\<close>.
\<close>

theorem right_column_depends_on_left:
  "right_column (TwoByTwoLayout_grid
     \<lparr>layout = 0, children = [], merge = True,
      top_left = Some (Widget 1 11), top_right = None,
      bottom_left = Some (Widget 3 13), bottom_right = None\<rparr>
     (TwoByTwoLayout_children
        \<lparr>layout = 0, children = [], merge = True,
         top_left = Some (Widget 1 11), top_right = None,
         bottom_left = Some (Widget 3 13), bottom_right = None\<rparr>))
     = Inr (''top-left'', ''bottom-left'') \<and>
   right_column (TwoByTwoLayout_grid
     \<lparr>layout = 0, children = [], merge = True,
      top_left = Some (Widget 1 11), top_right = None,
      bottom_left = None, bottom_right = None\<rparr>
     (TwoByTwoLayout_children
        \<lparr>layout = 0, children = [], merge = True,
         top_left = Some (Widget 1 11), top_right = None,
         bottom_left = None, bottom_right = None\<rparr>))
     = Inr (''top-left'', ''top-left'')"
  by (simp add: quad_defs py_defs right_column_def)

subsection \<open>The empty dictionary, the unmerged cross and the header-footer collapse\<close>

text \<open>
  C5. When every position of a container is absent, \<open>_update_layout\<close> returns at once:
  it raises nothing and the state after it is the state before it, so the three grid
  strings of the layout object, every \<open>grid_area\<close> and the children list keep their
  prior values.
\<close>

theorem all_absent_is_noop:
  assumes "header app = None" and "footer app = None" and "left_sidebar app = None"
      and "right_sidebar app = None" and "center app = None"
      and "top_left quad = None" and "top_right quad = None"
      and "bottom_left quad = None" and "bottom_right quad = None"
  shows "AppLayout_update_layout (app, h) = Inr (app, h) \<and>
         TwoByTwoLayout_update_layout (quad, k) = Inr (quad, k)"
  using assms
  by (simp add: AppLayout_update_layout_empty TwoByTwoLayout_update_layout_empty
        AppLayout_children_def AppLayout_all_children_def
        TwoByTwoLayout_children_def TwoByTwoLayout_all_children_def)

text \<open>The theorem for C5 on two emptied containers that still carry an earlier layout.\<close>

theorem all_absent_is_noop_witness:
  "AppLayout_update_layout
     (\<lparr>layout = 0, children = [Widget 1 11], merge = True,
       header = None, footer = None, left_sidebar = None, right_sidebar = None,
       center = None\<rparr>,
      setattr empty_heap 0 ''grid_template_columns'' (VStr ''1fr 2fr 1fr''))
   = Inr (\<lparr>layout = 0, children = [Widget 1 11], merge = True,
           header = None, footer = None, left_sidebar = None, right_sidebar = None,
           center = None\<rparr>,
          setattr empty_heap 0 ''grid_template_columns'' (VStr ''1fr 2fr 1fr'')) \<and>
   TwoByTwoLayout_update_layout
     (\<lparr>layout = 0, children = [Widget 1 11], merge = False,
       top_left = None, top_right = None, bottom_left = None, bottom_right = None\<rparr>,
      setattr empty_heap 11 ''grid_area'' (VStr ''top-left''))
   = Inr (\<lparr>layout = 0, children = [Widget 1 11], merge = False,
           top_left = None, top_right = None, bottom_left = None, bottom_right = None\<rparr>,
          setattr empty_heap 11 ''grid_area'' (VStr ''top-left''))"
  using all_absent_is_noop
    [of "\<lparr>layout = 0, children = [Widget 1 11], merge = True,
          header = None, footer = None, left_sidebar = None, right_sidebar = None,
          center = None\<rparr>"
        "\<lparr>layout = 0, children = [Widget 1 11], merge = False,
          top_left = None, top_right = None, bottom_left = None, bottom_right = None\<rparr>"
        "setattr empty_heap 0 ''grid_template_columns'' (VStr ''1fr 2fr 1fr'')"
        "setattr empty_heap 11 ''grid_area'' (VStr ''top-left'')"]
  by simp

lemma base_css:
  \<open>areas_css [[''header'', ''header'', ''header''],
              [''left-sidebar'', ''center'', ''right-sidebar''],
              [''footer'', ''footer'', ''footer'']] =
   ''"header header header"\<newline>"left-sidebar center right-sidebar"\<newline>"footer footer footer"''\<close>
  by (simp add: areas_css_def)

text \<open>
  C6, as amended. Cross topology, merge disabled: for every presence pattern with at
  least one occupant the geometry is the base one, and the layout object receives the
  columns \<open>1fr 2fr 1fr\<close>, the rows \<open>1fr 3fr 1fr\<close> and the base area template, whatever
  the pattern is.
\<close>

theorem unmerged_cross_is_base:
  assumes "\<not> merge app" and "AppLayout_children app \<noteq> []"
  shows \<open>AppLayout_grid app (AppLayout_children app) =
           Inr ([[''header'', ''header'', ''header''],
                 [''left-sidebar'', ''center'', ''right-sidebar''],
                 [''footer'', ''footer'', ''footer'']],
                [''1fr'', ''2fr'', ''1fr''], [''1fr'', ''3fr'', ''1fr'']) \<and>
         (\<exists>self' h'.
            AppLayout_update_layout (app, h) = Inr (self', h') \<and>
            h' (layout app) ''grid_template_columns'' = Some (VStr ''1fr 2fr 1fr'') \<and>
            h' (layout app) ''grid_template_rows'' = Some (VStr ''1fr 3fr 1fr'') \<and>
            h' (layout app) ''grid_template_areas'' =
              Some (VStr ''"header header header"\<newline>"left-sidebar center right-sidebar"\<newline>"footer footer footer"''))\<close>
proof -
  have g: "AppLayout_grid app (AppLayout_children app) = Inr AppLayout_base"
    using assms(1) by (simp add: AppLayout_grid_def)
  have w: "layout_written
             (write_out (layout app) (children app) AppLayout_base (AppLayout_children app) h)
             (layout app) AppLayout_base"
    by (rule write_out_written)
  show ?thesis
    using g w AppLayout_update_layout_nonempty[OF assms(2) g, of h]
    by (simp add: AppLayout_base_def layout_written_def base_css)
qed

text \<open>The theorem for C6 with the left sidebar as the only occupant.\<close>

theorem unmerged_cross_is_base_witness:
  \<open>AppLayout_children
     \<lparr>layout = 0, children = [], merge = False,
      header = None, footer = None, left_sidebar = Some (Widget 3 13),
      right_sidebar = None, center = None\<rparr> \<noteq> [] \<and>
   AppLayout_grid
     \<lparr>layout = 0, children = [], merge = False,
      header = None, footer = None, left_sidebar = Some (Widget 3 13),
      right_sidebar = None, center = None\<rparr>
     (AppLayout_children
        \<lparr>layout = 0, children = [], merge = False,
         header = None, footer = None, left_sidebar = Some (Widget 3 13),
         right_sidebar = None, center = None\<rparr>) =
     Inr ([[''header'', ''header'', ''header''],
           [''left-sidebar'', ''center'', ''right-sidebar''],
           [''footer'', ''footer'', ''footer'']],
          [''1fr'', ''2fr'', ''1fr''], [''1fr'', ''3fr'', ''1fr'']) \<and>
   (\<exists>self' h'.
      AppLayout_update_layout
        (\<lparr>layout = 0, children = [], merge = False,
          header = None, footer = None, left_sidebar = Some (Widget 3 13),
          right_sidebar = None, center = None\<rparr>, empty_heap) = Inr (self', h') \<and>
      h' 0 ''grid_template_columns'' = Some (VStr ''1fr 2fr 1fr'') \<and>
      h' 0 ''grid_template_rows'' = Some (VStr ''1fr 3fr 1fr'') \<and>
      h' 0 ''grid_template_areas'' =
        Some (VStr ''"header header header"\<newline>"left-sidebar center right-sidebar"\<newline>"footer footer footer"''))\<close>
  using unmerged_cross_is_base
    [of "\<lparr>layout = 0, children = [], merge = False,
          header = None, footer = None, left_sidebar = Some (Widget 3 13),
          right_sidebar = None, center = None\<rparr>" empty_heap]
  by (simp add: AppLayout_children_def AppLayout_all_children_def)

text \<open>
  C6 as the specification states it fails at the empty pattern, one of the 32: with merge
  disabled and no occupant the method writes nothing, and a layout object that had no
  grid strings has none afterwards.
\<close>

theorem unmerged_empty_cross_emits_nothing:
  "AppLayout_update_layout
     (\<lparr>layout = 0, children = [], merge = False,
       header = None, footer = None, left_sidebar = None, right_sidebar = None,
       center = None\<rparr>, empty_heap)
   = Inr (\<lparr>layout = 0, children = [], merge = False,
           header = None, footer = None, left_sidebar = None, right_sidebar = None,
           center = None\<rparr>, empty_heap) \<and>
   empty_heap 0 ''grid_template_columns'' = None \<and>
   empty_heap 0 ''grid_template_rows'' = None \<and>
   empty_heap 0 ''grid_template_areas'' = None"
  by (simp add: AppLayout_update_layout_def AppLayout_children_def AppLayout_all_children_def
        empty_heap_def)

text \<open>
  C7. Cross topology, merge enabled: when left sidebar, right sidebar and centre are all
  absent and at least two occupants are present, header and footer are both present and
  the geometry is the matrix \<open>[[header], [footer]]\<close> with columns \<open>[1fr]\<close> and rows
  \<open>[1fr, 1fr]\<close>, whatever the earlier steps had built; the layout object receives it.
\<close>

theorem middle_absent_collapses:
  assumes "merge app" and "left_sidebar app = None" and "right_sidebar app = None"
      and "center app = None" and "2 \<le> length (AppLayout_children app)"
  shows \<open>header app \<noteq> None \<and> footer app \<noteq> None \<and>
         AppLayout_grid app (AppLayout_children app) =
           Inr ([[''header''], [''footer'']], [''1fr''], [''1fr'', ''1fr'']) \<and>
         (\<exists>self' h'.
            AppLayout_update_layout (app, h) = Inr (self', h') \<and>
            h' (layout app) ''grid_template_columns'' = Some (VStr ''1fr'') \<and>
            h' (layout app) ''grid_template_rows'' = Some (VStr ''1fr 1fr'') \<and>
            h' (layout app) ''grid_template_areas'' = Some (VStr ''"header"\<newline>"footer"''))\<close>
proof -
  have hf: "header app \<noteq> None \<and> footer app \<noteq> None"
    using assms(2-5) by (auto simp add: AppLayout_children_length split: if_splits)
  have g: "AppLayout_grid app (AppLayout_children app) =
             Inr ([[''header''], [''footer'']], [''1fr''], [''1fr'', ''1fr''])"
    using assms hf by (cases "header app"; cases "footer app") (simp_all add: app_defs py_defs)
  have ne: "AppLayout_children app \<noteq> []"
    using assms(5) by auto
  have w: "layout_written
             (write_out (layout app) (children app)
                ([[''header''], [''footer'']], [''1fr''], [''1fr'', ''1fr''])
                (AppLayout_children app) h)
             (layout app) ([[''header''], [''footer'']], [''1fr''], [''1fr'', ''1fr''])"
    by (rule write_out_written)
  show ?thesis
    using hf g w AppLayout_update_layout_nonempty[OF ne g, of h]
    by (simp add: layout_written_def areas_css_def)
qed

text \<open>The theorem for C7 with occupants at header and footer only.\<close>

theorem middle_absent_collapses_witness:
  \<open>2 \<le> length (AppLayout_children
       \<lparr>layout = 0, children = [], merge = True,
        header = Some (Widget 1 11), footer = Some (Widget 2 12),
        left_sidebar = None, right_sidebar = None, center = None\<rparr>) \<and>
   AppLayout_grid
     \<lparr>layout = 0, children = [], merge = True,
      header = Some (Widget 1 11), footer = Some (Widget 2 12),
      left_sidebar = None, right_sidebar = None, center = None\<rparr>
     (AppLayout_children
        \<lparr>layout = 0, children = [], merge = True,
         header = Some (Widget 1 11), footer = Some (Widget 2 12),
         left_sidebar = None, right_sidebar = None, center = None\<rparr>) =
     Inr ([[''header''], [''footer'']], [''1fr''], [''1fr'', ''1fr'']) \<and>
   (\<exists>self' h'.
      AppLayout_update_layout
        (\<lparr>layout = 0, children = [], merge = True,
          header = Some (Widget 1 11), footer = Some (Widget 2 12),
          left_sidebar = None, right_sidebar = None, center = None\<rparr>, empty_heap)
        = Inr (self', h') \<and>
      h' 0 ''grid_template_columns'' = Some (VStr ''1fr'') \<and>
      h' 0 ''grid_template_rows'' = Some (VStr ''1fr 1fr'') \<and>
      h' 0 ''grid_template_areas'' = Some (VStr ''"header"\<newline>"footer"''))\<close>
  using middle_absent_collapses
    [of "\<lparr>layout = 0, children = [], merge = True,
          header = Some (Widget 1 11), footer = Some (Widget 2 12),
          left_sidebar = None, right_sidebar = None, center = None\<rparr>" empty_heap]
  by (simp add: AppLayout_children_def AppLayout_all_children_def)

subsection \<open>Area tags\<close>

lemma present_set: "set (present kvs) = {(p, w). (p, Some w) \<in> set kvs}"
  by (induction kvs rule: present.induct) auto

lemma AppLayout_positions_in_matrix:
  "AppLayout_children c \<noteq> [] \<Longrightarrow>
   \<exists>areas columns rows.
     AppLayout_grid c (AppLayout_children c) = Inr (areas, columns, rows) \<and>
     list_all (\<lambda>pc. fst pc \<in> set (concat areas)) (AppLayout_children c)"
  by (cases "header c"; cases "footer c"; cases "left_sidebar c"; cases "right_sidebar c";
      cases "center c"; cases "merge c")
     (simp_all add: app_defs py_defs)

lemma TwoByTwoLayout_positions_in_matrix:
  "TwoByTwoLayout_children c \<noteq> [] \<Longrightarrow>
   \<exists>areas.
     TwoByTwoLayout_grid c (TwoByTwoLayout_children c) = Inr areas \<and>
     list_all (\<lambda>pc. fst pc \<in> set (concat areas)) (TwoByTwoLayout_children c)"
  by (cases "top_left c"; cases "top_right c"; cases "bottom_left c"; cases "bottom_right c";
      cases "merge c")
     (simp_all add: quad_defs py_defs)

text \<open>
  C8, as amended. In either topology and with either merge setting, when at least one
  position is filled, the dictionary of children pairs every present occupant with the
  name of its own position and every such name occurs in a cell of the area matrix; when
  moreover no two present occupants share a layout object, a run leaves on the layout
  object of every present occupant the name of its own position as \<open>grid_area\<close>.
\<close>

theorem present_occupants_tagged:
  assumes "AppLayout_children app \<noteq> []"
      and "TwoByTwoLayout_children quad \<noteq> []"
  shows "set (AppLayout_children app) = {(p, w). (p, Some w) \<in> set (AppLayout_all_children app)} \<and>
         (\<exists>areas columns rows self' h'.
            AppLayout_grid app (AppLayout_children app) = Inr (areas, columns, rows) \<and>
            AppLayout_update_layout (app, h) = Inr (self', h') \<and>
            (distinct (map (\<lambda>c. widget_layout (snd c)) (AppLayout_children app)) \<longrightarrow>
             tagged h' (AppLayout_children app)) \<and>
            list_all (\<lambda>pc. fst pc \<in> set (concat areas)) (AppLayout_children app)) \<and>
         set (TwoByTwoLayout_children quad) =
           {(p, w). (p, Some w) \<in> set (TwoByTwoLayout_all_children quad)} \<and>
         (\<exists>areas self' k'.
            TwoByTwoLayout_grid quad (TwoByTwoLayout_children quad) = Inr areas \<and>
            TwoByTwoLayout_update_layout (quad, k) = Inr (self', k') \<and>
            (distinct (map (\<lambda>c. widget_layout (snd c)) (TwoByTwoLayout_children quad)) \<longrightarrow>
             tagged k' (TwoByTwoLayout_children quad)) \<and>
            list_all (\<lambda>pc. fst pc \<in> set (concat areas)) (TwoByTwoLayout_children quad))"
proof -
  obtain areas columns rows where
    a: "AppLayout_grid app (AppLayout_children app) = Inr (areas, columns, rows)"
       "list_all (\<lambda>pc. fst pc \<in> set (concat areas)) (AppLayout_children app)"
    using AppLayout_positions_in_matrix[OF assms(1)] by blast
  have a': "distinct (map (\<lambda>c. widget_layout (snd c)) (AppLayout_children app)) \<longrightarrow>
            tagged (write_out (layout app) (children app) (areas, columns, rows)
                      (AppLayout_children app) h)
              (AppLayout_children app)"
    by (simp add: write_out_tagged)
  obtain qareas where
    q: "TwoByTwoLayout_grid quad (TwoByTwoLayout_children quad) = Inr qareas"
       "list_all (\<lambda>pc. fst pc \<in> set (concat qareas)) (TwoByTwoLayout_children quad)"
    using TwoByTwoLayout_positions_in_matrix[OF assms(2)] by blast
  have q': "distinct (map (\<lambda>c. widget_layout (snd c)) (TwoByTwoLayout_children quad)) \<longrightarrow>
            tagged (write_out (layout quad) (children quad)
                      (qareas, [''1fr'', ''1fr''], [''1fr'', ''1fr''])
                      (TwoByTwoLayout_children quad) k)
              (TwoByTwoLayout_children quad)"
    by (simp add: write_out_tagged)
  have "\<exists>areas columns rows self' h'.
            AppLayout_grid app (AppLayout_children app) = Inr (areas, columns, rows) \<and>
            AppLayout_update_layout (app, h) = Inr (self', h') \<and>
            (distinct (map (\<lambda>c. widget_layout (snd c)) (AppLayout_children app)) \<longrightarrow>
             tagged h' (AppLayout_children app)) \<and>
            list_all (\<lambda>pc. fst pc \<in> set (concat areas)) (AppLayout_children app)"
    using a a' AppLayout_update_layout_nonempty[OF assms(1) a(1), of h] by blast
  moreover have "\<exists>areas self' k'.
            TwoByTwoLayout_grid quad (TwoByTwoLayout_children quad) = Inr areas \<and>
            TwoByTwoLayout_update_layout (quad, k) = Inr (self', k') \<and>
            (distinct (map (\<lambda>c. widget_layout (snd c)) (TwoByTwoLayout_children quad)) \<longrightarrow>
             tagged k' (TwoByTwoLayout_children quad)) \<and>
            list_all (\<lambda>pc. fst pc \<in> set (concat areas)) (TwoByTwoLayout_children quad)"
    using q q' TwoByTwoLayout_update_layout_nonempty[OF assms(2) q(1), of k] by blast
  ultimately show ?thesis
    by (simp add: AppLayout_children_def TwoByTwoLayout_children_def present_set)
qed

text \<open>The theorem for C8 on a cross with footer and left sidebar, merged, and on an
  unmerged quadrant with top-right only.\<close>

theorem present_occupants_tagged_witness:
  "(\<exists>areas columns rows self' h'.
      AppLayout_grid
        \<lparr>layout = 0, children = [], merge = True,
         header = None, footer = Some (Widget 2 12), left_sidebar = Some (Widget 3 13),
         right_sidebar = None, center = None\<rparr>
        (AppLayout_children
           \<lparr>layout = 0, children = [], merge = True,
            header = None, footer = Some (Widget 2 12), left_sidebar = Some (Widget 3 13),
            right_sidebar = None, center = None\<rparr>) = Inr (areas, columns, rows) \<and>
      AppLayout_update_layout
        (\<lparr>layout = 0, children = [], merge = True,
          header = None, footer = Some (Widget 2 12), left_sidebar = Some (Widget 3 13),
          right_sidebar = None, center = None\<rparr>, empty_heap) = Inr (self', h') \<and>
      h' 12 ''grid_area'' = Some (VStr ''footer'') \<and>
      h' 13 ''grid_area'' = Some (VStr ''left-sidebar'') \<and>
      ''footer'' \<in> set (concat areas) \<and> ''left-sidebar'' \<in> set (concat areas)) \<and>
   (\<exists>areas self' k'.
      TwoByTwoLayout_grid
        \<lparr>layout = 0, children = [], merge = False,
         top_left = None, top_right = Some (Widget 2 12),
         bottom_left = None, bottom_right = None\<rparr>
        (TwoByTwoLayout_children
           \<lparr>layout = 0, children = [], merge = False,
            top_left = None, top_right = Some (Widget 2 12),
            bottom_left = None, bottom_right = None\<rparr>) = Inr areas \<and>
      TwoByTwoLayout_update_layout
        (\<lparr>layout = 0, children = [], merge = False,
          top_left = None, top_right = Some (Widget 2 12),
          bottom_left = None, bottom_right = None\<rparr>, empty_heap) = Inr (self', k') \<and>
      k' 12 ''grid_area'' = Some (VStr ''top-right'') \<and>
      ''top-right'' \<in> set (concat areas))"
  using present_occupants_tagged
    [of "\<lparr>layout = 0, children = [], merge = True,
          header = None, footer = Some (Widget 2 12), left_sidebar = Some (Widget 3 13),
          right_sidebar = None, center = None\<rparr>"
        "\<lparr>layout = 0, children = [], merge = False,
          top_left = None, top_right = Some (Widget 2 12),
          bottom_left = None, bottom_right = None\<rparr>"
        empty_heap empty_heap]
  by (simp add: AppLayout_children_def AppLayout_all_children_def
        TwoByTwoLayout_children_def TwoByTwoLayout_all_children_def tagged_def)

text \<open>
  C8 as the specification states it fails when two different occupants share one layout
  object: with footer and centre filled by two widgets on the layout object 20, the loop
  writes \<open>footer\<close> and then \<open>center\<close> on that object, so the footer's occupant ends with the
  area tag \<open>center\<close>.
\<close>

theorem shared_layout_takes_last_tag:
  "area_tag
     (AppLayout_update_layout
        (\<lparr>layout = 0, children = [], merge = False,
          header = None, footer = Some (Widget 2 20), left_sidebar = None,
          right_sidebar = None, center = Some (Widget 5 20)\<rparr>, empty_heap))
     (Widget 2 20) = Some (VStr ''center'')"
  by (simp add: area_tag_def AppLayout_update_layout_def AppLayout_children_def
        AppLayout_all_children_def AppLayout_grid_def AppLayout_base_def Let_def and_then_def
        tag_children_def set_children_def delegate_to_layout_def setattr_apply)

subsection \<open>Assignments to slots and to other traits\<close>

lemma layout_written_setattr:
  "name \<noteq> ''grid_template_columns'' \<Longrightarrow> name \<noteq> ''grid_template_rows'' \<Longrightarrow>
   name \<noteq> ''grid_template_areas'' \<Longrightarrow>
   layout_written (setattr h a name v) b g = layout_written h b g"
  by (cases g) (simp add: layout_written_def setattr_apply)

lemma tagged_setattr:
  "name \<noteq> ''grid_area'' \<Longrightarrow> tagged (setattr h a name v) cs = tagged h cs"
  by (simp add: tagged_def setattr_apply)

lemma AppLayout_assign_same:
  "app_slot_get slot app = w \<Longrightarrow> AppLayout_assign slot w (app, h) = Inr (app, h)"
  by (simp add: AppLayout_assign_def)

lemma TwoByTwoLayout_assign_same:
  "quad_slot_get slot quad = w \<Longrightarrow> TwoByTwoLayout_assign slot w (quad, h) = Inr (quad, h)"
  by (simp add: TwoByTwoLayout_assign_def)

lemma AppLayout_assign_changed:
  "app_slot_get slot app \<noteq> w \<Longrightarrow>
   AppLayout_assign slot w (app, h) =
     and_then (AppLayout_update_layout (app_slot_store slot w app, h))
       (\<lambda>s'. Inr (delegate_to_layout (Change (app_slot_name slot) (slot_val w)) s'))"
  by (cases slot)
     (simp_all add: AppLayout_assign_def AppLayout_notify_def AppLayout_child_changed_def
        AppLayout_watched_def)

lemma TwoByTwoLayout_assign_changed:
  "quad_slot_get slot quad \<noteq> w \<Longrightarrow>
   TwoByTwoLayout_assign slot w (quad, h) =
     and_then (TwoByTwoLayout_update_layout (quad_slot_store slot w quad, h))
       (\<lambda>s'. Inr (delegate_to_layout (Change (quad_slot_name slot) (slot_val w)) s'))"
  by (cases slot)
     (simp_all add: TwoByTwoLayout_assign_def TwoByTwoLayout_notify_def
        TwoByTwoLayout_child_changed_def TwoByTwoLayout_watched_def)

lemma app_slot_store_layout:
  "layout (app_slot_store slot w app) = layout app"
  "children (app_slot_store slot w app) = children app"
  by (cases slot; simp)+

lemma quad_slot_store_layout:
  "layout (quad_slot_store slot w quad) = layout quad"
  "children (quad_slot_store slot w quad) = children quad"
  by (cases slot; simp)+

lemma app_slot_name_fresh:
  "app_slot_name slot \<noteq> ''grid_template_columns''"
  "app_slot_name slot \<noteq> ''grid_template_rows''"
  "app_slot_name slot \<noteq> ''grid_template_areas''"
  "app_slot_name slot \<noteq> ''grid_area''"
  by (cases slot; simp)+

lemma quad_slot_name_fresh:
  "quad_slot_name slot \<noteq> ''grid_template_columns''"
  "quad_slot_name slot \<noteq> ''grid_template_rows''"
  "quad_slot_name slot \<noteq> ''grid_template_areas''"
  "quad_slot_name slot \<noteq> ''grid_area''"
  by (cases slot; simp)+

lemma AppLayout_assign_empty:
  assumes "app_slot_get slot app \<noteq> w"
      and "AppLayout_children (app_slot_store slot w app) = []"
  shows "AppLayout_assign slot w (app, h) =
     Inr (app_slot_store slot w app, setattr h (layout app) (app_slot_name slot) (slot_val w))"
  by (simp add: AppLayout_assign_changed[OF assms(1)] AppLayout_update_layout_empty[OF assms(2)]
        and_then_def delegate_to_layout_def app_slot_store_layout)

lemma TwoByTwoLayout_assign_empty:
  assumes "quad_slot_get slot quad \<noteq> w"
      and "TwoByTwoLayout_children (quad_slot_store slot w quad) = []"
  shows "TwoByTwoLayout_assign slot w (quad, h) =
     Inr (quad_slot_store slot w quad,
          setattr h (layout quad) (quad_slot_name slot) (slot_val w))"
  by (simp add: TwoByTwoLayout_assign_changed[OF assms(1)]
        TwoByTwoLayout_update_layout_empty[OF assms(2)]
        and_then_def delegate_to_layout_def quad_slot_store_layout)

lemma AppLayout_assign_nonempty:
  assumes "app_slot_get slot app \<noteq> w"
      and "AppLayout_children (app_slot_store slot w app) \<noteq> []"
      and "AppLayout_grid (app_slot_store slot w app)
             (AppLayout_children (app_slot_store slot w app)) = Inr g"
  shows "AppLayout_assign slot w (app, h) =
     Inr ((app_slot_store slot w app)
            \<lparr>children := map snd (AppLayout_children (app_slot_store slot w app))\<rparr>,
          setattr (write_out (layout app) (children app) g
                     (AppLayout_children (app_slot_store slot w app)) h)
            (layout app) (app_slot_name slot) (slot_val w))"
  by (simp add: AppLayout_assign_changed[OF assms(1)]
        AppLayout_update_layout_nonempty[OF assms(2,3)] and_then_def
        delegate_to_layout_def app_slot_store_layout)

lemma TwoByTwoLayout_assign_nonempty:
  assumes "quad_slot_get slot quad \<noteq> w"
      and "TwoByTwoLayout_children (quad_slot_store slot w quad) \<noteq> []"
      and "TwoByTwoLayout_grid (quad_slot_store slot w quad)
             (TwoByTwoLayout_children (quad_slot_store slot w quad)) = Inr areas"
  shows "TwoByTwoLayout_assign slot w (quad, h) =
     Inr ((quad_slot_store slot w quad)
            \<lparr>children := map snd (TwoByTwoLayout_children (quad_slot_store slot w quad))\<rparr>,
          setattr (write_out (layout quad) (children quad)
                     (areas, [''1fr'', ''1fr''], [''1fr'', ''1fr''])
                     (TwoByTwoLayout_children (quad_slot_store slot w quad)) h)
            (layout quad) (quad_slot_name slot) (slot_val w))"
  by (simp add: TwoByTwoLayout_assign_changed[OF assms(1)]
        TwoByTwoLayout_update_layout_nonempty[OF assms(2,3)]
        and_then_def delegate_to_layout_def quad_slot_store_layout)

lemma AppLayout_assign_rewrites:
  assumes "app_slot_get slot app \<noteq> w"
      and "AppLayout_children (app_slot_store slot w app) \<noteq> []"
  shows "\<exists>g self' h'.
            AppLayout_grid (app_slot_store slot w app)
              (AppLayout_children (app_slot_store slot w app)) = Inr g \<and>
            AppLayout_assign slot w (app, h) = Inr (self', h') \<and>
            layout_written h' (layout app) g \<and>
            children self' = map snd (AppLayout_children (app_slot_store slot w app)) \<and>
            (distinct (map (\<lambda>c. widget_layout (snd c))
                        (AppLayout_children (app_slot_store slot w app))) \<longrightarrow>
             tagged h' (AppLayout_children (app_slot_store slot w app)))"
proof -
  obtain g where g: "AppLayout_grid (app_slot_store slot w app)
                       (AppLayout_children (app_slot_store slot w app)) = Inr g"
    using AppLayout_grid_total by blast
  show ?thesis
    using g AppLayout_assign_nonempty[OF assms g, of h]
    by (simp add: layout_written_setattr tagged_setattr app_slot_name_fresh
          write_out_written write_out_tagged)
qed

lemma TwoByTwoLayout_assign_rewrites:
  assumes "quad_slot_get slot quad \<noteq> w"
      and "TwoByTwoLayout_children (quad_slot_store slot w quad) \<noteq> []"
  shows "\<exists>areas self' h'.
            TwoByTwoLayout_grid (quad_slot_store slot w quad)
              (TwoByTwoLayout_children (quad_slot_store slot w quad)) = Inr areas \<and>
            TwoByTwoLayout_assign slot w (quad, h) = Inr (self', h') \<and>
            layout_written h' (layout quad) (areas, [''1fr'', ''1fr''], [''1fr'', ''1fr'']) \<and>
            children self' = map snd (TwoByTwoLayout_children (quad_slot_store slot w quad)) \<and>
            (distinct (map (\<lambda>c. widget_layout (snd c))
                        (TwoByTwoLayout_children (quad_slot_store slot w quad))) \<longrightarrow>
             tagged h' (TwoByTwoLayout_children (quad_slot_store slot w quad)))"
proof -
  obtain areas where a: "TwoByTwoLayout_grid (quad_slot_store slot w quad)
                       (TwoByTwoLayout_children (quad_slot_store slot w quad)) = Inr areas"
    using TwoByTwoLayout_grid_total by blast
  show ?thesis
    using a TwoByTwoLayout_assign_nonempty[OF assms a, of h]
    by (simp add: layout_written_setattr tagged_setattr quad_slot_name_fresh
          write_out_written write_out_tagged)
qed

text \<open>
  C4, as amended. An assignment to a watched slot attribute that changes the value the
  slot holds and leaves at least one position filled runs the whole method: the layout
  object's column tracks, row tracks and area template are rewritten from the geometry of
  the new slots, the children list becomes the present occupants in dictionary order,
  and, when no two present occupants share a layout object, every present occupant
  carries its position as area tag. An assignment of the value the slot holds already
  changes nothing. An assignment that changes the value and leaves every position empty
  rewrites none of these: the state changes in the slot and in the layout object's
  attribute of the slot's name only.
\<close>

theorem slot_assignment_rewrites:
  "(app_slot_get slot app = w \<longrightarrow> AppLayout_assign slot w (app, h) = Inr (app, h)) \<and>
   (app_slot_get slot app \<noteq> w \<and> AppLayout_children (app_slot_store slot w app) = [] \<longrightarrow>
      AppLayout_assign slot w (app, h) =
        Inr (app_slot_store slot w app,
             setattr h (layout app) (app_slot_name slot) (slot_val w))) \<and>
   (app_slot_get slot app \<noteq> w \<and> AppLayout_children (app_slot_store slot w app) \<noteq> [] \<longrightarrow>
      (\<exists>g self' h'.
          AppLayout_grid (app_slot_store slot w app)
            (AppLayout_children (app_slot_store slot w app)) = Inr g \<and>
          AppLayout_assign slot w (app, h) = Inr (self', h') \<and>
          layout_written h' (layout app) g \<and>
          children self' = map snd (AppLayout_children (app_slot_store slot w app)) \<and>
          (distinct (map (\<lambda>c. widget_layout (snd c))
                      (AppLayout_children (app_slot_store slot w app))) \<longrightarrow>
           tagged h' (AppLayout_children (app_slot_store slot w app))))) \<and>
   (quad_slot_get qslot quad = v \<longrightarrow> TwoByTwoLayout_assign qslot v (quad, k) = Inr (quad, k)) \<and>
   (quad_slot_get qslot quad \<noteq> v \<and>
    TwoByTwoLayout_children (quad_slot_store qslot v quad) = [] \<longrightarrow>
      TwoByTwoLayout_assign qslot v (quad, k) =
        Inr (quad_slot_store qslot v quad,
             setattr k (layout quad) (quad_slot_name qslot) (slot_val v))) \<and>
   (quad_slot_get qslot quad \<noteq> v \<and>
    TwoByTwoLayout_children (quad_slot_store qslot v quad) \<noteq> [] \<longrightarrow>
      (\<exists>areas self' k'.
          TwoByTwoLayout_grid (quad_slot_store qslot v quad)
            (TwoByTwoLayout_children (quad_slot_store qslot v quad)) = Inr areas \<and>
          TwoByTwoLayout_assign qslot v (quad, k) = Inr (self', k') \<and>
          layout_written k' (layout quad) (areas, [''1fr'', ''1fr''], [''1fr'', ''1fr'']) \<and>
          children self' = map snd (TwoByTwoLayout_children (quad_slot_store qslot v quad)) \<and>
          (distinct (map (\<lambda>c. widget_layout (snd c))
                      (TwoByTwoLayout_children (quad_slot_store qslot v quad))) \<longrightarrow>
           tagged k' (TwoByTwoLayout_children (quad_slot_store qslot v quad)))))"
  using AppLayout_assign_same[of slot app w h] AppLayout_assign_empty[of slot app w h]
    AppLayout_assign_rewrites[of slot app w h]
    TwoByTwoLayout_assign_same[of qslot quad v k] TwoByTwoLayout_assign_empty[of qslot quad v k]
    TwoByTwoLayout_assign_rewrites[of qslot quad v k]
  by blast

text \<open>
  The theorem for C4 at three inputs. A footer added beside a header, and top-left
  removed beside bottom-right: both rewrite. The only header removed, and the only
  top-left removed: nothing is rewritten, the children list keeps the removed widget. The
  held header and the held top-left assigned again with merge switched off in between:
  nothing changes, the column tracks stay \<open>1fr\<close>.
\<close>

theorem slot_assignment_rewrites_witness:
  \<open>(\<exists>self' h'.
      AppLayout_assign Footer (Some (Widget 2 12))
        (\<lparr>layout = 0, children = [Widget 1 11], merge = True,
          header = Some (Widget 1 11), footer = None, left_sidebar = None,
          right_sidebar = None, center = None\<rparr>, empty_heap) = Inr (self', h') \<and>
      h' 0 ''grid_template_columns'' = Some (VStr ''1fr'') \<and>
      h' 0 ''grid_template_rows'' = Some (VStr ''1fr 1fr'') \<and>
      h' 0 ''grid_template_areas'' = Some (VStr ''"header"\<newline>"footer"'') \<and>
      children self' = [Widget 1 11, Widget 2 12] \<and>
      h' 11 ''grid_area'' = Some (VStr ''header'') \<and>
      h' 12 ''grid_area'' = Some (VStr ''footer'')) \<and>
   (\<exists>self' k'.
      TwoByTwoLayout_assign Top_left None
        (\<lparr>layout = 0, children = [Widget 1 11, Widget 4 14], merge = True,
          top_left = Some (Widget 1 11), top_right = None,
          bottom_left = None, bottom_right = Some (Widget 4 14)\<rparr>, empty_heap)
        = Inr (self', k') \<and>
      k' 0 ''grid_template_columns'' = Some (VStr ''1fr 1fr'') \<and>
      k' 0 ''grid_template_rows'' = Some (VStr ''1fr 1fr'') \<and>
      k' 0 ''grid_template_areas'' =
        Some (VStr ''"bottom-right bottom-right"\<newline>"bottom-right bottom-right"'') \<and>
      children self' = [Widget 4 14] \<and>
      k' 14 ''grid_area'' = Some (VStr ''bottom-right'')) \<and>
   AppLayout_assign Header None
     (\<lparr>layout = 0, children = [Widget 1 11], merge = True,
       header = Some (Widget 1 11), footer = None, left_sidebar = None,
       right_sidebar = None, center = None\<rparr>, empty_heap)
   = Inr (\<lparr>layout = 0, children = [Widget 1 11], merge = True,
           header = None, footer = None, left_sidebar = None,
           right_sidebar = None, center = None\<rparr>,
          setattr empty_heap 0 ''header'' VNone) \<and>
   TwoByTwoLayout_assign Top_left None
     (\<lparr>layout = 0, children = [Widget 1 11], merge = True,
       top_left = Some (Widget 1 11), top_right = None,
       bottom_left = None, bottom_right = None\<rparr>, empty_heap)
   = Inr (\<lparr>layout = 0, children = [Widget 1 11], merge = True,
           top_left = None, top_right = None,
           bottom_left = None, bottom_right = None\<rparr>,
          setattr empty_heap 0 ''top_left'' VNone) \<and>
   AppLayout_assign Header (Some (Widget 1 11))
     (\<lparr>layout = 0, children = [Widget 1 11, Widget 2 12], merge = False,
       header = Some (Widget 1 11), footer = Some (Widget 2 12), left_sidebar = None,
       right_sidebar = None, center = None\<rparr>,
      setattr empty_heap 0 ''grid_template_columns'' (VStr ''1fr''))
   = Inr (\<lparr>layout = 0, children = [Widget 1 11, Widget 2 12], merge = False,
           header = Some (Widget 1 11), footer = Some (Widget 2 12), left_sidebar = None,
           right_sidebar = None, center = None\<rparr>,
          setattr empty_heap 0 ''grid_template_columns'' (VStr ''1fr'')) \<and>
   TwoByTwoLayout_assign Top_left (Some (Widget 1 11))
     (\<lparr>layout = 0, children = [Widget 1 11, Widget 4 14], merge = False,
       top_left = Some (Widget 1 11), top_right = None,
       bottom_left = None, bottom_right = Some (Widget 4 14)\<rparr>, empty_heap)
   = Inr (\<lparr>layout = 0, children = [Widget 1 11, Widget 4 14], merge = False,
           top_left = Some (Widget 1 11), top_right = None,
           bottom_left = None, bottom_right = Some (Widget 4 14)\<rparr>, empty_heap)\<close>
  using slot_assignment_rewrites
    [of Footer
        "\<lparr>layout = 0, children = [Widget 1 11], merge = True,
          header = Some (Widget 1 11), footer = None, left_sidebar = None,
          right_sidebar = None, center = None\<rparr>"
        "Some (Widget 2 12)" empty_heap
        Top_left
        "\<lparr>layout = 0, children = [Widget 1 11, Widget 4 14], merge = True,
          top_left = Some (Widget 1 11), top_right = None,
          bottom_left = None, bottom_right = Some (Widget 4 14)\<rparr>"
        None empty_heap]
    slot_assignment_rewrites
    [of Header
        "\<lparr>layout = 0, children = [Widget 1 11], merge = True,
          header = Some (Widget 1 11), footer = None, left_sidebar = None,
          right_sidebar = None, center = None\<rparr>"
        None empty_heap
        Top_left
        "\<lparr>layout = 0, children = [Widget 1 11], merge = True,
          top_left = Some (Widget 1 11), top_right = None,
          bottom_left = None, bottom_right = None\<rparr>"
        None empty_heap]
    slot_assignment_rewrites
    [of Header
        "\<lparr>layout = 0, children = [Widget 1 11, Widget 2 12], merge = False,
          header = Some (Widget 1 11), footer = Some (Widget 2 12), left_sidebar = None,
          right_sidebar = None, center = None\<rparr>"
        "Some (Widget 1 11)" "setattr empty_heap 0 ''grid_template_columns'' (VStr ''1fr'')"
        Top_left
        "\<lparr>layout = 0, children = [Widget 1 11, Widget 4 14], merge = False,
          top_left = Some (Widget 1 11), top_right = None,
          bottom_left = None, bottom_right = Some (Widget 4 14)\<rparr>"
        "Some (Widget 1 11)" empty_heap]
  by (simp add: app_defs quad_defs py_defs layout_written_def tagged_def areas_css_def
        slot_val_def)

text \<open>
  C4 as the specification states it fails for the assignment that empties the last
  filled slot: the method returns before any write, so the children list still holds the
  removed occupant and the layout object keeps the column tracks it had and gets no row
  tracks and no area template. Only the all-trait observer writes, the attribute
  \<open>header\<close>.
\<close>

theorem last_occupant_removed_no_rewrite:
  "AppLayout_assign Header None
     (\<lparr>layout = 0, children = [Widget 1 11], merge = True,
       header = Some (Widget 1 11), footer = None, left_sidebar = None,
       right_sidebar = None, center = None\<rparr>,
      setattr empty_heap 0 ''grid_template_columns'' (VStr ''1fr 2fr 1fr''))
   = Inr (\<lparr>layout = 0, children = [Widget 1 11], merge = True,
           header = None, footer = None, left_sidebar = None,
           right_sidebar = None, center = None\<rparr>,
          setattr (setattr empty_heap 0 ''grid_template_columns'' (VStr ''1fr 2fr 1fr''))
            0 ''header'' VNone) \<and>
   setattr (setattr empty_heap 0 ''grid_template_columns'' (VStr ''1fr 2fr 1fr''))
     0 ''header'' VNone 0 ''grid_template_rows'' = None \<and>
   setattr (setattr empty_heap 0 ''grid_template_columns'' (VStr ''1fr 2fr 1fr''))
     0 ''header'' VNone 0 ''grid_template_areas'' = None"
  by (simp add: AppLayout_assign_def AppLayout_notify_def AppLayout_child_changed_def
        AppLayout_watched_def AppLayout_update_layout_def AppLayout_children_def
        AppLayout_all_children_def and_then_def delegate_to_layout_def slot_val_def
        setattr_apply empty_heap_def)

lemma AppLayout_update_layout_layout:
  "AppLayout_update_layout (app, h) = Inr (self', h') \<Longrightarrow> layout self' = layout app"
proof (cases "AppLayout_children app = []")
  case True
  assume "AppLayout_update_layout (app, h) = Inr (self', h')"
  with True show ?thesis by (simp add: AppLayout_update_layout_empty)
next
  case False
  assume r: "AppLayout_update_layout (app, h) = Inr (self', h')"
  obtain g where "AppLayout_grid app (AppLayout_children app) = Inr g"
    using AppLayout_grid_total by blast
  with False r show ?thesis by (auto simp add: AppLayout_update_layout_nonempty)
qed

lemma TwoByTwoLayout_update_layout_layout:
  "TwoByTwoLayout_update_layout (quad, h) = Inr (self', h') \<Longrightarrow> layout self' = layout quad"
proof (cases "TwoByTwoLayout_children quad = []")
  case True
  assume "TwoByTwoLayout_update_layout (quad, h) = Inr (self', h')"
  with True show ?thesis by (simp add: TwoByTwoLayout_update_layout_empty)
next
  case False
  assume r: "TwoByTwoLayout_update_layout (quad, h) = Inr (self', h')"
  obtain areas where "TwoByTwoLayout_grid quad (TwoByTwoLayout_children quad) = Inr areas"
    using TwoByTwoLayout_grid_total by blast
  with False r show ?thesis by (auto simp add: TwoByTwoLayout_update_layout_nonempty)
qed

lemma AppLayout_notify_forwards:
  "\<exists>self' h'. AppLayout_notify change (app, h) = Inr (self', h') \<and>
     h' (layout app) (change_name change) = Some (change_new change)"
proof (cases "change_name change \<in> set AppLayout_watched")
  case True
  obtain self1 h1 where u: "AppLayout_update_layout (app, h) = Inr (self1, h1)"
    using AppLayout_update_layout_total[of app h] by auto
  then have "layout self1 = layout app" by (rule AppLayout_update_layout_layout)
  with True u show ?thesis
    by (simp add: AppLayout_notify_def AppLayout_child_changed_def and_then_def
          delegate_to_layout_def setattr_apply)
next
  case False
  then show ?thesis
    by (simp add: AppLayout_notify_def and_then_def delegate_to_layout_def setattr_apply)
qed

lemma TwoByTwoLayout_notify_forwards:
  "\<exists>self' h'. TwoByTwoLayout_notify change (quad, h) = Inr (self', h') \<and>
     h' (layout quad) (change_name change) = Some (change_new change)"
proof (cases "change_name change \<in> set TwoByTwoLayout_watched")
  case True
  obtain self1 h1 where u: "TwoByTwoLayout_update_layout (quad, h) = Inr (self1, h1)"
    using TwoByTwoLayout_update_layout_total[of quad h] by auto
  then have "layout self1 = layout quad" by (rule TwoByTwoLayout_update_layout_layout)
  with True u show ?thesis
    by (simp add: TwoByTwoLayout_notify_def TwoByTwoLayout_child_changed_def and_then_def
          delegate_to_layout_def setattr_apply)
next
  case False
  then show ?thesis
    by (simp add: TwoByTwoLayout_notify_def and_then_def delegate_to_layout_def setattr_apply)
qed

text \<open>
  C10, as amended. The all-trait observer forwards every delivered change to the
  attribute of the same name on the container's layout object, whatever the name is: a
  change of any name delivered to either container, an assignment that changes a slot
  (the slot's own trait name receives the widget or \<open>None\<close>), and an assignment that
  changes the merge flag, which leaves the state as it was but for the flag and the
  attribute \<open>merge\<close> of the layout object, with no run of \<open>_update_layout\<close>. An assignment
  of the value a slot or the flag holds already delivers no change and forwards nothing.
\<close>

theorem every_change_forwarded_to_layout:
  "snd (delegate_to_layout change (self, h)) (layout self) (change_name change)
     = Some (change_new change) \<and>
   (\<exists>self' h'. AppLayout_notify change (app, h) = Inr (self', h') \<and>
      h' (layout app) (change_name change) = Some (change_new change)) \<and>
   (\<exists>self' h'. TwoByTwoLayout_notify change (quad, h) = Inr (self', h') \<and>
      h' (layout quad) (change_name change) = Some (change_new change)) \<and>
   (app_slot_get slot app \<noteq> w \<longrightarrow>
      (\<exists>self' h'. AppLayout_assign slot w (app, h) = Inr (self', h') \<and>
         h' (layout app) (app_slot_name slot) = Some (slot_val w))) \<and>
   (quad_slot_get qslot quad \<noteq> w \<longrightarrow>
      (\<exists>self' h'. TwoByTwoLayout_assign qslot w (quad, h) = Inr (self', h') \<and>
         h' (layout quad) (quad_slot_name qslot) = Some (slot_val w))) \<and>
   (merge app \<noteq> b \<longrightarrow>
      AppLayout_assign_merge b (app, h) =
        Inr (app\<lparr>merge := b\<rparr>, setattr h (layout app) ''merge'' (VBool b))) \<and>
   (merge quad \<noteq> b \<longrightarrow>
      TwoByTwoLayout_assign_merge b (quad, h) =
        Inr (quad\<lparr>merge := b\<rparr>, setattr h (layout quad) ''merge'' (VBool b))) \<and>
   AppLayout_assign slot (app_slot_get slot app) (app, h) = Inr (app, h) \<and>
   TwoByTwoLayout_assign qslot (quad_slot_get qslot quad) (quad, h) = Inr (quad, h) \<and>
   AppLayout_assign_merge (merge app) (app, h) = Inr (app, h) \<and>
   TwoByTwoLayout_assign_merge (merge quad) (quad, h) = Inr (quad, h)"
proof -
  have 1: "snd (delegate_to_layout change (self, h)) (layout self) (change_name change)
             = Some (change_new change)"
    by (simp add: delegate_to_layout_def setattr_apply)
  have 2: "app_slot_get slot app \<noteq> w \<longrightarrow>
      (\<exists>self' h'. AppLayout_assign slot w (app, h) = Inr (self', h') \<and>
         h' (layout app) (app_slot_name slot) = Some (slot_val w))"
    using AppLayout_notify_forwards
            [of "Change (app_slot_name slot) (slot_val w)" "app_slot_store slot w app" h]
    by (simp add: AppLayout_assign_def app_slot_store_layout)
  have 3: "quad_slot_get qslot quad \<noteq> w \<longrightarrow>
      (\<exists>self' h'. TwoByTwoLayout_assign qslot w (quad, h) = Inr (self', h') \<and>
         h' (layout quad) (quad_slot_name qslot) = Some (slot_val w))"
    using TwoByTwoLayout_notify_forwards
            [of "Change (quad_slot_name qslot) (slot_val w)" "quad_slot_store qslot w quad" h]
    by (simp add: TwoByTwoLayout_assign_def quad_slot_store_layout)
  have 4: "merge app \<noteq> b \<longrightarrow>
      AppLayout_assign_merge b (app, h) =
        Inr (app\<lparr>merge := b\<rparr>, setattr h (layout app) ''merge'' (VBool b))"
    by (simp add: AppLayout_assign_merge_def AppLayout_notify_def AppLayout_watched_def
          and_then_def delegate_to_layout_def)
  have 5: "merge quad \<noteq> b \<longrightarrow>
      TwoByTwoLayout_assign_merge b (quad, h) =
        Inr (quad\<lparr>merge := b\<rparr>, setattr h (layout quad) ''merge'' (VBool b))"
    by (simp add: TwoByTwoLayout_assign_merge_def TwoByTwoLayout_notify_def
          TwoByTwoLayout_watched_def and_then_def delegate_to_layout_def)
  have 6: "AppLayout_assign slot (app_slot_get slot app) (app, h) = Inr (app, h)"
    "TwoByTwoLayout_assign qslot (quad_slot_get qslot quad) (quad, h) = Inr (quad, h)"
    "AppLayout_assign_merge (merge app) (app, h) = Inr (app, h)"
    "TwoByTwoLayout_assign_merge (merge quad) (quad, h) = Inr (quad, h)"
    by (simp_all add: AppLayout_assign_def TwoByTwoLayout_assign_def
          AppLayout_assign_merge_def TwoByTwoLayout_assign_merge_def)
  show ?thesis
    using 1 2 3 4 5 6 AppLayout_notify_forwards[of change app h]
      TwoByTwoLayout_notify_forwards[of change quad h]
    by blast
qed

text \<open>The theorem for C10: a header and a top-left assigned to empty containers, and the
  merge flag of both switched off.\<close>

theorem every_change_forwarded_to_layout_witness:
  "(\<exists>self' h'.
      AppLayout_assign Header (Some (Widget 1 11))
        (\<lparr>layout = 0, children = [], merge = True,
          header = None, footer = None, left_sidebar = None,
          right_sidebar = None, center = None\<rparr>, empty_heap) = Inr (self', h') \<and>
      h' 0 ''header'' = Some (VWidget (Widget 1 11))) \<and>
   (\<exists>self' h'.
      TwoByTwoLayout_assign Top_left (Some (Widget 1 11))
        (\<lparr>layout = 0, children = [], merge = True,
          top_left = None, top_right = None,
          bottom_left = None, bottom_right = None\<rparr>, empty_heap) = Inr (self', h') \<and>
      h' 0 ''top_left'' = Some (VWidget (Widget 1 11))) \<and>
   AppLayout_assign_merge False
     (\<lparr>layout = 0, children = [], merge = True,
       header = None, footer = None, left_sidebar = None,
       right_sidebar = None, center = None\<rparr>, empty_heap)
   = Inr (\<lparr>layout = 0, children = [], merge = False,
           header = None, footer = None, left_sidebar = None,
           right_sidebar = None, center = None\<rparr>,
          setattr empty_heap 0 ''merge'' (VBool False)) \<and>
   TwoByTwoLayout_assign_merge False
     (\<lparr>layout = 0, children = [], merge = True,
       top_left = None, top_right = None,
       bottom_left = None, bottom_right = None\<rparr>, empty_heap)
   = Inr (\<lparr>layout = 0, children = [], merge = False,
           top_left = None, top_right = None,
           bottom_left = None, bottom_right = None\<rparr>,
          setattr empty_heap 0 ''merge'' (VBool False))"
  using every_change_forwarded_to_layout
    [of "Change ''merge'' (VBool False)"
        "\<lparr>layout = 0, children = [], merge = True,
          header = None, footer = None, left_sidebar = None,
          right_sidebar = None, center = None\<rparr>"
        empty_heap
        "\<lparr>layout = 0, children = [], merge = True,
          header = None, footer = None, left_sidebar = None,
          right_sidebar = None, center = None\<rparr>"
        "\<lparr>layout = 0, children = [], merge = True,
          top_left = None, top_right = None,
          bottom_left = None, bottom_right = None\<rparr>"
        Header "Some (Widget 1 11)" Top_left False]
  by (simp add: slot_val_def)

text \<open>
  C10 as the specification states it fails for a write of the value held: with the merge
  flag already set, assigning \<open>True\<close> to it leaves the state as it was, and a layout object
  without a \<open>merge\<close> attribute still has none.
\<close>

theorem held_merge_value_not_forwarded:
  "AppLayout_assign_merge True
     (\<lparr>layout = 0, children = [], merge = True,
       header = None, footer = None, left_sidebar = None,
       right_sidebar = None, center = None\<rparr>, empty_heap)
   = Inr (\<lparr>layout = 0, children = [], merge = True,
           header = None, footer = None, left_sidebar = None,
           right_sidebar = None, center = None\<rparr>, empty_heap) \<and>
   empty_heap 0 ''merge'' = None"
  by (simp add: AppLayout_assign_merge_def empty_heap_def)

end
